theory Spec2Isabelle
  imports Complex_Main "HOL-Library.AList"
begin
section \<open>Values shared by the services\<close>

text \<open>
  A JavaScript \<open>Error\<close> is modelled by its message. Every \<open>throw\<close> of the source is
  the \<open>Inl\<close> branch of a sum, every caught error a case distinction on it.
\<close>

datatype error = Error (message: string)

text \<open>
  A number read from a parsed model answer. \<open>Undefined\<close> stands for a property that is
  absent from the answer: JavaScript converts it to NaN in a comparison, and every
  comparison with NaN is false.
\<close>

datatype jsnum = Num real | Undefined

fun isNum :: "jsnum \<Rightarrow> bool" where
  "isNum (Num x) = True"
| "isNum Undefined = False"

fun num_ge :: "jsnum \<Rightarrow> real \<Rightarrow> bool" where
  "num_ge (Num x) c = (c \<le> x)"
| "num_ge Undefined c = False"

fun num_lt :: "jsnum \<Rightarrow> real \<Rightarrow> bool" where
  "num_lt (Num x) c = (x < c)"
| "num_lt Undefined c = False"

fun num_gt :: "jsnum \<Rightarrow> real \<Rightarrow> bool" where
  "num_gt (Num x) c = (c < x)"
| "num_gt Undefined c = False"

section \<open>Data model\<close>

text \<open>The object built by \<open>scrapePage\<close> (the time stamp \<open>scrapedAt\<close> is left out).\<close>

record scraped =
  url :: string
  title :: string
  description :: string
  content :: string
  domain :: string
  searchTerm :: "string option"
  wordCount :: nat
  contentLength :: nat

text \<open>
  The object parsed from the model's answer in \<open>analyzeWebContent\<close>. The three lists are
  optional: the source reads them as \<open>a.analysis.key_points || []\<close>.
\<close>

record analysis =
  relevance_score :: jsnum
  credibility_score :: jsnum
  summary :: string
  key_points :: "string list option"
  insights :: "string list option"
  topics :: "string list option"

text \<open>
  The object returned by \<open>analyzeSingleSource\<close>. Its \<open>embedding\<close> is the first ten
  components of the vector (the source renders them as text for the log);
  \<open>processingTime\<close> is left out.
\<close>

type_synonym vector = "real list"

record analyzed =
  a_source :: scraped
  a_analysis :: analysis
  a_embedding :: "vector option"

section \<open>Counting with a JavaScript object: \<open>getTopItems\<close>\<close>

text \<open>
  \<open>itemCounts\<close> is a plain object \<open>{}\<close>. Its own properties are kept as an association
  list in order of creation. A stored value is a number, or the text that
  \<open>(itemCounts[item] || 0) + 1\<close> yields when the lookup finds a member inherited from
  \<open>Object.prototype\<close> (a function, to which \<open>+ 1\<close> appends the character 1).
\<close>

datatype count = Count nat | Text

definition inherited :: "string \<Rightarrow> bool" where
  "inherited k \<longleftrightarrow> k \<in> set [''constructor'', ''toString'', ''toLocaleString'', ''valueOf'',
     ''hasOwnProperty'', ''isPrototypeOf'', ''propertyIsEnumerable'', ''__proto__'',
     ''__defineGetter__'', ''__defineSetter__'', ''__lookupGetter__'', ''__lookupSetter__'']"

text \<open>
  One round of \<open>items.forEach\<close>: \<open>itemCounts[item] = (itemCounts[item] || 0) + 1\<close>.
  An own number is incremented in place, an own text stays a text, a fresh key is
  appended with 1 (or with a text if the name is inherited). Assigning a text to
  \<open>__proto__\<close> calls the inherited setter, which ignores it.
\<close>

definition bump :: "(string \<times> count) list \<Rightarrow> string \<Rightarrow> (string \<times> count) list" where
  "bump itemCounts item =
     (case map_of itemCounts item of
        Some (Count n) \<Rightarrow> AList.update item (Count (n + 1)) itemCounts
      | Some Text \<Rightarrow> AList.update item Text itemCounts
      | None \<Rightarrow>
          if item = ''__proto__'' then itemCounts
          else if inherited item then AList.update item Text itemCounts
          else AList.update item (Count 1) itemCounts)"

definition countItems :: "string list \<Rightarrow> (string \<times> count) list" where
  "countItems items = foldl bump [] items"

text \<open>
  \<open>Object.entries\<close> lists the keys that are array indices first, in ascending numeric
  order, then the other keys in order of creation. An array index is the canonical
  decimal text of an integer from 0 to 2^32 - 2.
\<close>

definition isDigit :: "char \<Rightarrow> bool" where
  "isDigit c \<longleftrightarrow> 48 \<le> (of_char c :: nat) \<and> (of_char c :: nat) \<le> 57"

definition decimalValue :: "string \<Rightarrow> int" where
  "decimalValue s = foldl (\<lambda>a c. 10 * a + (of_char c - 48)) 0 s"

definition isArrayIndex :: "string \<Rightarrow> bool" where
  "isArrayIndex s \<longleftrightarrow> s \<noteq> [] \<and> list_all isDigit s \<and> (s = ''0'' \<or> hd s \<noteq> CHR ''0'')
     \<and> decimalValue s \<le> 4294967294"

definition propertyOrder :: "string list \<Rightarrow> string list" where
  "propertyOrder ks = sort_key decimalValue (filter isArrayIndex ks)
                      @ filter (\<lambda>k. \<not> isArrayIndex k) ks"

definition objectEntries :: "(string \<times> 'v) list \<Rightarrow> (string \<times> 'v) list" where
  "objectEntries obj = sort_key (\<lambda>e. decimalValue (fst e)) (filter (\<lambda>e. isArrayIndex (fst e)) obj)
                       @ filter (\<lambda>e. \<not> isArrayIndex (fst e)) obj"

text \<open>
  The comparator of the source is \<open>([,a], [,b]) => b - a\<close>. On a text the difference
  is NaN (\<open>None\<close>), which \<open>sort\<close> reads as 0.
\<close>

fun byCountDesc :: "string \<times> count \<Rightarrow> string \<times> count \<Rightarrow> int option" where
  "byCountDesc (_, Count a) (_, Count b) = Some (int b - int a)"
| "byCountDesc _ _ = None"

definition sortCompare :: "('a \<Rightarrow> 'a \<Rightarrow> int option) \<Rightarrow> 'a \<Rightarrow> 'a \<Rightarrow> int" where
  "sortCompare cmp x y = (case cmp x y of None \<Rightarrow> 0 | Some v \<Rightarrow> v)"

text \<open>
  A comparator is consistent on the elements of an array if none of its results is
  NaN and its results order the elements into classes: it is 0 on an element and
  itself, symmetric where it is 0, and transitive where it is 0, where it is
  negative and where it is positive.
\<close>

definition consistentOn :: "('a \<Rightarrow> 'a \<Rightarrow> int option) \<Rightarrow> 'a list \<Rightarrow> bool" where
  "consistentOn cmp xs \<longleftrightarrow>
     list_all (\<lambda>a. list_all (\<lambda>b. cmp a b \<noteq> None) xs) xs
     \<and> list_all (\<lambda>a. sortCompare cmp a a = 0) xs
     \<and> list_all (\<lambda>a. list_all (\<lambda>b. sortCompare cmp a b = 0 \<longrightarrow> sortCompare cmp b a = 0) xs) xs
     \<and> list_all (\<lambda>a. list_all (\<lambda>b. list_all (\<lambda>c.
          (sortCompare cmp a b = 0 \<and> sortCompare cmp b c = 0 \<longrightarrow> sortCompare cmp a c = 0)
          \<and> (sortCompare cmp a b < 0 \<and> sortCompare cmp b c < 0 \<longrightarrow> sortCompare cmp a c < 0)
          \<and> (sortCompare cmp a b > 0 \<and> sortCompare cmp b c > 0 \<longrightarrow> sortCompare cmp a c > 0))
          xs) xs) xs"

text \<open>
  \<open>Array.prototype.sort\<close>. For a comparator that is consistent on the elements the
  language fixes the result: ascending under the comparator, with elements that
  compare as equal in the order they had (the sort is stable); an insertion sort
  computes it. For any other comparator the language leaves the order to the
  engine that runs the program; it is the parameter \<open>engine\<close>.
\<close>

fun insertSorted :: "('a \<Rightarrow> 'a \<Rightarrow> int) \<Rightarrow> 'a \<Rightarrow> 'a list \<Rightarrow> 'a list" where
  "insertSorted cmp x [] = [x]"
| "insertSorted cmp x (y # ys) =
     (if cmp x y \<le> 0 then x # y # ys else y # insertSorted cmp x ys)"

definition arraySort ::
  "('a list \<Rightarrow> 'a list) \<Rightarrow> ('a \<Rightarrow> 'a \<Rightarrow> int option) \<Rightarrow> 'a list \<Rightarrow> 'a list" where
  "arraySort engine cmp xs =
     (if consistentOn cmp xs then foldr (insertSorted (sortCompare cmp)) xs [] else engine xs)"

type_synonym entries = "(string \<times> count) list"

definition getTopItems :: "(entries \<Rightarrow> entries) \<Rightarrow> string list \<Rightarrow> nat \<Rightarrow> entries" where
  "getTopItems engine items limit =
     take limit (arraySort engine byCountDesc (objectEntries (countItems items)))"

section \<open>\<open>consolidateAnalyses\<close>\<close>

record sourceSummary =
  s_url :: string
  s_domain :: string
  s_title :: string
  s_relevance :: jsnum
  s_credibility :: jsnum
  s_summary :: string

record summaryData =
  query :: string
  totalSources :: nat
  highRelevanceSources :: nat
  mediumRelevanceSources :: nat
  lowRelevanceSources :: nat
  topKeyPoints :: "(string \<times> count) list"
  topInsights :: "(string \<times> count) list"
  topTopics :: "(string \<times> count) list"
  sources :: "sourceSummary list"

definition orEmpty :: "'a list option \<Rightarrow> 'a list" where
  "orEmpty xs = (case xs of None \<Rightarrow> [] | Some ys \<Rightarrow> ys)"

definition flatMap :: "('a \<Rightarrow> 'b list) \<Rightarrow> 'a list \<Rightarrow> 'b list" where
  "flatMap f xs = concat (map f xs)"

definition isHigh :: "analyzed \<Rightarrow> bool" where
  "isHigh a \<longleftrightarrow> num_ge (relevance_score (a_analysis a)) 70"

definition isMedium :: "analyzed \<Rightarrow> bool" where
  "isMedium a \<longleftrightarrow> num_ge (relevance_score (a_analysis a)) 40 \<and> num_lt (relevance_score (a_analysis a)) 70"

definition isLow :: "analyzed \<Rightarrow> bool" where
  "isLow a \<longleftrightarrow> num_lt (relevance_score (a_analysis a)) 40"

definition consolidateAnalyses ::
  "(entries \<Rightarrow> entries) \<Rightarrow> string \<Rightarrow> analyzed list \<Rightarrow> summaryData" where
  "consolidateAnalyses engine q analyses =
     \<lparr> query = q,
       totalSources = length analyses,
       highRelevanceSources = length (filter isHigh analyses),
       mediumRelevanceSources = length (filter isMedium analyses),
       lowRelevanceSources = length (filter isLow analyses),
       topKeyPoints = getTopItems engine (flatMap (\<lambda>a. orEmpty (key_points (a_analysis a))) analyses) 10,
       topInsights = getTopItems engine (flatMap (\<lambda>a. orEmpty (insights (a_analysis a))) analyses) 10,
       topTopics = getTopItems engine (flatMap (\<lambda>a. orEmpty (topics (a_analysis a))) analyses) 10,
       sources = map (\<lambda>a. \<lparr> s_url = url (a_source a), s_domain = domain (a_source a),
                             s_title = title (a_source a),
                             s_relevance = relevance_score (a_analysis a),
                             s_credibility = credibility_score (a_analysis a),
                             s_summary = summary (a_analysis a) \<rparr>) analyses \<rparr>"

subsection \<open>The ranking as the specification words it\<close>

text \<open>
  The distinct elements of a list in order of first occurrence.
\<close>

definition firstSeen :: "'a list \<Rightarrow> 'a list" where
  "firstSeen xs = rev (remdups (rev xs))"

text \<open>
  The specification's ranking: the frequency of each distinct item by exact match of
  the text, sorted by descending frequency with ties in first-seen order (\<open>sort_key\<close>
  is stable), cut to the first \<open>limit\<close> entries.
\<close>

definition topItemsSpec :: "string list \<Rightarrow> nat \<Rightarrow> (string \<times> nat) list" where
  "topItemsSpec items limit =
     take limit (sort_key (\<lambda>e. - int (snd e)) (map (\<lambda>k. (k, count_list items k)) (firstSeen items)))"

text \<open>
  The same ranking over the order in which the counting object lists its keys: array
  indices first, ascending, then the other items in first-seen order.
\<close>

definition ranking :: "string list \<Rightarrow> nat \<Rightarrow> (string \<times> nat) list" where
  "ranking items limit =
     take limit (sort_key (\<lambda>e. - int (snd e))
       (map (\<lambda>k. (k, count_list items k)) (propertyOrder (firstSeen items))))"

definition counted :: "string \<times> nat \<Rightarrow> string \<times> count" where
  "counted e = (fst e, Count (snd e))"

subsection \<open>Sample analyses\<close>

text \<open>
  A sample engine: it makes the first run of the array ascending (a strictly
  descending run is reversed) and puts every later element into place by binary
  insertion, going right where the comparison is not negative. This is how V8 sorts
  an array of fewer than 64 elements.
\<close>

fun runLength :: "('a \<Rightarrow> 'a \<Rightarrow> int) \<Rightarrow> bool \<Rightarrow> 'a \<Rightarrow> 'a list \<Rightarrow> nat" where
  "runLength cmp descending previous [] = 0"
| "runLength cmp descending previous (x # xs) =
     (if (if descending then cmp x previous < 0 else 0 \<le> cmp x previous)
      then 1 + runLength cmp descending x xs else 0)"

function insertionPoint :: "('a \<Rightarrow> 'a \<Rightarrow> int) \<Rightarrow> 'a \<Rightarrow> 'a list \<Rightarrow> nat \<Rightarrow> nat \<Rightarrow> nat" where
  "insertionPoint cmp pivot xs left right =
     (if left < right then
        (if cmp pivot (xs ! (left + (right - left) div 2)) < 0
         then insertionPoint cmp pivot xs left (left + (right - left) div 2)
         else insertionPoint cmp pivot xs (left + (right - left) div 2 + 1) right)
      else left)"
  by pat_completeness auto
termination
  by (relation "measure (\<lambda>(cmp, pivot, xs, left, right). right - left)") auto

definition binaryInsert :: "('a \<Rightarrow> 'a \<Rightarrow> int) \<Rightarrow> 'a list \<Rightarrow> 'a \<Rightarrow> 'a list" where
  "binaryInsert cmp prefix pivot =
     (let k = insertionPoint cmp pivot prefix 0 (length prefix)
      in take k prefix @ pivot # drop k prefix)"

definition runThenInsert :: "('a \<Rightarrow> 'a \<Rightarrow> int) \<Rightarrow> 'a list \<Rightarrow> 'a list" where
  "runThenInsert cmp xs =
     (case xs of
        x # y # rest \<Rightarrow>
          (let descending = cmp y x < 0;
               n = 2 + runLength cmp descending y rest;
               run = (if descending then rev (take n xs) else take n xs)
           in foldl (binaryInsert cmp) run (drop n xs))
      | _ \<Rightarrow> xs)"

definition sampleEngine :: "entries \<Rightarrow> entries" where
  "sampleEngine xs = runThenInsert (sortCompare byCountDesc) xs"

definition sampleSource :: scraped where
  "sampleSource = \<lparr> url = ''https://example.org/a'', title = ''A'', description = '''',
     content = ''text'', domain = ''example.org'', searchTerm = Some ''q'', wordCount = 1,
     contentLength = 4 \<rparr>"

definition sampleAnalysis :: "real \<Rightarrow> string list \<Rightarrow> analyzed" where
  "sampleAnalysis score points =
     \<lparr> a_source = sampleSource,
       a_analysis = \<lparr> relevance_score = Num score, credibility_score = Num 50,
                      summary = ''s'', key_points = Some points, insights = None,
                      topics = Some [''geral''] \<rparr>,
       a_embedding = None \<rparr>"

section \<open>Configuration and the outside world\<close>

text \<open>
  The fields of \<open>config/default.js\<close> that the services read. Chunk sizes and length
  caps are counts. The result budget is \<open>parseInt(process.env.MAX_SEARCH_RESULTS) || 50\<close>,
  a whole number of either sign.
\<close>

record config =
  maxResults :: int
  maxConcurrentScrapes :: nat
  maxContentLength :: nat
  parallelProcessingLimit :: nat
  blockedDomains :: "string list"
  allowedDomains :: "string list"

text \<open>The shipped defaults.\<close>

definition defaultConfig :: config where
  "defaultConfig = \<lparr> maxResults = 50, maxConcurrentScrapes = 5, maxContentLength = 50000,
     parallelProcessingLimit = 5,
     blockedDomains = [''localhost'', ''127.0.0.1'', ''10.*'', ''192.168.*'', ''172.16.*''],
     allowedDomains = [''*''] \<rparr>"

text \<open>
  One organic result block of the provider's page, as the selectors of
  \<open>parseDuckDuckGoResults\<close> read it: the trimmed text of the title link, its
  \<open>href\<close> attribute if present, and the trimmed snippet text.
\<close>

record rawResult =
  r_title :: string
  r_href :: "string option"
  r_snippet :: string

text \<open>A search hit; \<open>searchTerm\<close> and \<open>dork\<close> are added by the callers of the search.\<close>

record hit =
  h_title :: string
  h_url :: string
  h_snippet :: string
  h_source :: string
  h_searchTerm :: "string option"
  h_dork :: "string option"

text \<open>\<open>new URL(url)\<close>: the two properties that the services read.\<close>

record urlObj =
  href :: string
  hostname :: string

text \<open>
  The document that \<open>cheerio\<close> yields for a fetched page after the unwanted elements
  are removed: the text of \<open>title\<close>, the \<open>content\<close> attribute of the description
  meta tag, for each of the eight content selectors (in the order of
  \<open>contentSelectors\<close>) the text of the matched elements or \<open>None\<close> when nothing
  matches, and the text of \<open>body\<close>.
\<close>

record page =
  p_title :: string
  p_description :: "string option"
  p_candidates :: "string option list"
  p_body :: string

text \<open>
  A provider call is identified by its query and its result budget (the parameter
  \<open>dc\<close> of the request; nothing checks that it is positive). What lies outside
  the program: the provider's answer to a call (which may depend on the calls made
  before it; \<open>Inl\<close> is any failure of the request or of the parsing of its body),
  the URL parser and URI decoder of the platform (\<open>None\<close> is a thrown error), the
  answer to the GET of a page (\<open>Inl\<close> is a failed request, \<open>Inr None\<close> an empty
  body), and the order in which the engine's \<open>sort\<close> leaves counted entries when
  the comparator is not consistent on them.
\<close>

type_synonym call = "string \<times> int"

record world =
  respond :: "call list \<Rightarrow> call \<Rightarrow> error + rawResult list"
  parseURL :: "string \<Rightarrow> urlObj option"
  decodeURIComponent :: "string \<Rightarrow> string option"
  fetch :: "string \<Rightarrow> error + page option"
  sortEngine :: "entries \<Rightarrow> entries"

section \<open>\<open>WebSearchService\<close>: searching\<close>

text \<open>\<open>s.includes(sub)\<close>.\<close>

fun strIncludes :: "string \<Rightarrow> string \<Rightarrow> bool" where
  "strIncludes [] sub = (sub = [])"
| "strIncludes (c # cs) sub = (take (length sub) (c # cs) = sub \<or> strIncludes cs sub)"

text \<open>
  \<open>url.match(/uddg=([^&]+)/)\<close>: the first place where \<open>uddg=\<close> is followed by at
  least one character other than an ampersand; the capture is the longest run of
  such characters.
\<close>

fun matchUddg :: "string \<Rightarrow> string option" where
  "matchUddg [] = None"
| "matchUddg (c # cs) =
     (if take 5 (c # cs) = ''uddg='' \<and> takeWhile (\<lambda>x. x \<noteq> CHR ''&'') (drop 5 (c # cs)) \<noteq> []
      then Some (takeWhile (\<lambda>x. x \<noteq> CHR ''&'') (drop 5 (c # cs)))
      else matchUddg cs)"

text \<open>\<open>normalizeUrl\<close>: any thrown error returns the URL unchanged.\<close>

definition normalizeUrl :: "world \<Rightarrow> string \<Rightarrow> string" where
  "normalizeUrl W u =
     (case (if strIncludes u ''/l/?uddg='' then matchUddg u else None) of
        Some m \<Rightarrow> (case decodeURIComponent W m of Some d \<Rightarrow> d | None \<Rightarrow> u)
      | None \<Rightarrow> (case parseURL W u of Some parsed \<Rightarrow> href parsed | None \<Rightarrow> u))"

text \<open>\<open>parseDuckDuckGoResults\<close>: a block is kept if \<open>title && url\<close>.\<close>

definition parseResult :: "world \<Rightarrow> rawResult \<Rightarrow> hit option" where
  "parseResult W r =
     (case r_href r of
        None \<Rightarrow> None
      | Some u \<Rightarrow>
          if r_title r \<noteq> [] \<and> u \<noteq> []
          then Some \<lparr> h_title = r_title r, h_url = normalizeUrl W u, h_snippet = r_snippet r,
                      h_source = ''duckduckgo'', h_searchTerm = None, h_dork = None \<rparr>
          else None)"

definition parseDuckDuckGoResults :: "world \<Rightarrow> rawResult list \<Rightarrow> hit list" where
  "parseDuckDuckGoResults W raws = List.map_filter (parseResult W) raws"

text \<open>An option that is destructured with a default: \<open>const { x = d } = options\<close>.\<close>

definition withDefault :: "'a option \<Rightarrow> 'a \<Rightarrow> 'a" where
  "withDefault opt d = (case opt of None \<Rightarrow> d | Some v \<Rightarrow> v)"

text \<open>
  \<open>xs.slice(0, n)\<close> for a whole number \<open>n\<close>: the first \<open>n\<close> elements, and for a
  negative \<open>n\<close> all but the last \<open>-n\<close> elements.
\<close>

definition sliceTo :: "'a list \<Rightarrow> int \<Rightarrow> 'a list" where
  "sliceTo xs n = (if n < 0 then take (nat (int (length xs) + n)) xs else take (nat n) xs)"

text \<open>
  \<open>searchDuckDuckGo\<close>. The option \<open>maxResults\<close> defaults to the configured value and is
  not checked. The function returns the hits and records the call; the \<open>catch\<close> turns
  every failure into the empty list.
\<close>

definition searchDuckDuckGo ::
  "world \<Rightarrow> config \<Rightarrow> string \<Rightarrow> int option \<Rightarrow> call list \<Rightarrow> hit list \<times> call list" where
  "searchDuckDuckGo W cfg q optMaxResults calls =
     (let n = withDefault optMaxResults (maxResults cfg) in
      (case respond W calls (q, n) of
         Inl e \<Rightarrow> []
       | Inr raws \<Rightarrow> sliceTo (parseDuckDuckGoResults W raws) n,
       calls @ [(q, n)]))"

text \<open>
  The inner loop of \<open>multiSearch\<close> and the last loop of \<open>searchWithDorks\<close>: a result
  is pushed unless its URL is in \<open>seenUrls\<close>.
\<close>

fun dedupe :: "hit list \<Rightarrow> hit list \<times> string set \<Rightarrow> hit list \<times> string set" where
  "dedupe [] (allResults, seenUrls) = (allResults, seenUrls)"
| "dedupe (r # rs) (allResults, seenUrls) =
     (if h_url r \<notin> seenUrls
      then dedupe rs (allResults @ [r], insert (h_url r) seenUrls)
      else dedupe rs (allResults, seenUrls))"

text \<open>\<open>multiSearch\<close>: one call per term with the caller's options, in order.\<close>

fun multiSearchLoop ::
  "world \<Rightarrow> config \<Rightarrow> string list \<Rightarrow> int option \<Rightarrow> hit list \<times> string set \<Rightarrow> call list
   \<Rightarrow> hit list \<times> call list" where
  "multiSearchLoop W cfg [] opt (allResults, seenUrls) calls = (allResults, calls)"
| "multiSearchLoop W cfg (term # terms) opt (allResults, seenUrls) calls =
     (let (results, calls') = searchDuckDuckGo W cfg term opt calls in
      multiSearchLoop W cfg terms opt
        (dedupe (map (\<lambda>r. r\<lparr>h_searchTerm := Some term\<rparr>) results) (allResults, seenUrls)) calls')"

definition multiSearch ::
  "world \<Rightarrow> config \<Rightarrow> string list \<Rightarrow> int option \<Rightarrow> call list \<Rightarrow> hit list \<times> call list" where
  "multiSearch W cfg searchTerms opt calls = multiSearchLoop W cfg searchTerms opt ([], {}) calls"

text \<open>
  A template literal renders a missing value as the text \<open>undefined\<close>; the base query of
  \<open>searchWithDorks\<close> is \<open>searchTerms[0]\<close>, which is missing for an empty list.
\<close>

definition render :: "string option \<Rightarrow> string" where
  "render t = (case t of None \<Rightarrow> ''undefined'' | Some s \<Rightarrow> s)"

definition dorks :: "string option \<Rightarrow> string list" where
  "dorks baseQuery =
     [ [CHR 0x22] @ render baseQuery @ [CHR 0x22],
       render baseQuery @ '' filetype:pdf'',
       render baseQuery @ '' site:wikipedia.org'',
       render baseQuery @ '' site:edu'',
       render baseQuery @ '' site:org'',
       render baseQuery @ '' inurl:blog'',
       render baseQuery @ '' intitle:'' @ [CHR 0x22] @ render baseQuery @ [CHR 0x22] ]"

text \<open>\<open>Math.ceil(a / b)\<close> for whole numbers \<open>a\<close> and \<open>b\<close> with \<open>b\<close> positive.\<close>

definition ceilDiv :: "int \<Rightarrow> int \<Rightarrow> int" where
  "ceilDiv a b = - ((- a) div b)"

text \<open>
  \<open>searchWithDorks\<close>. Every dork is searched with
  \<open>{...options, maxResults: Math.ceil(this.maxResults / dorks.length)}\<close>, where
  \<open>this.maxResults\<close> is the configured value; the results are tagged, collected and
  then de-duplicated.
\<close>

fun dorkLoop ::
  "world \<Rightarrow> config \<Rightarrow> string option \<Rightarrow> string list \<Rightarrow> hit list \<Rightarrow> call list
   \<Rightarrow> hit list \<times> call list" where
  "dorkLoop W cfg baseQuery [] allResults calls = (allResults, calls)"
| "dorkLoop W cfg baseQuery (dork # ds) allResults calls =
     (let (results, calls') =
            searchDuckDuckGo W cfg dork
              (Some (ceilDiv (maxResults cfg) (int (length (dorks baseQuery))))) calls
      in dorkLoop W cfg baseQuery ds
           (allResults @ map (\<lambda>r. r\<lparr>h_dork := Some dork, h_searchTerm := baseQuery\<rparr>) results) calls')"

definition searchWithDorks ::
  "world \<Rightarrow> config \<Rightarrow> string option \<Rightarrow> int option \<Rightarrow> call list \<Rightarrow> hit list \<times> call list" where
  "searchWithDorks W cfg baseQuery opt calls =
     (let (allResults, calls') = dorkLoop W cfg baseQuery (dorks baseQuery) [] calls
      in (fst (dedupe allResults ([], {})), calls'))"

text \<open>
  The first half of \<open>performWebSearch\<close>: the value of \<open>searchResults\<close> when scraping
  starts. The options \<open>maxResults\<close> and \<open>useAdvancedSearch\<close> default to the configured
  budget and to \<open>true\<close>.
\<close>

record searchOptions =
  o_maxResults :: "int option"
  o_useAdvancedSearch :: "bool option"

definition searchResults ::
  "world \<Rightarrow> config \<Rightarrow> string list \<Rightarrow> searchOptions \<Rightarrow> call list \<Rightarrow> hit list \<times> call list" where
  "searchResults W cfg searchTerms options calls =
     (let maxRes = withDefault (o_maxResults options) (maxResults cfg);
          useAdvancedSearch = withDefault (o_useAdvancedSearch options) True
      in if useAdvancedSearch then
           (let primaryTerm = (case searchTerms of [] \<Rightarrow> None | t # _ \<Rightarrow> Some t);
                (dorkResults, calls1) = searchWithDorks W cfg primaryTerm (Some (ceilDiv maxRes 2)) calls;
                otherTerms = drop 1 searchTerms
            in if otherTerms \<noteq> [] then
                 (let (normalResults, calls2) = multiSearch W cfg otherTerms (Some (ceilDiv maxRes 2)) calls1
                  in (dorkResults @ normalResults, calls2))
               else (dorkResults, calls1))
         else multiSearch W cfg searchTerms (Some maxRes) calls)"

section \<open>\<open>WebSearchService\<close>: the domain filter\<close>

text \<open>
  A blocked or allowed pattern with a star in it is turned into a regular expression
  by \<open>pattern.replace(/\*/g, '.*')\<close> and tested anywhere in the host name.
\<close>

fun replaceStars :: "string \<Rightarrow> string" where
  "replaceStars [] = []"
| "replaceStars (c # cs) = (if c = CHR ''*'' then ''.*'' @ replaceStars cs else c # replaceStars cs)"

text \<open>
  The expressions that arise are read in the fragment of the shipped configuration:
  a dot matches any character, a star repeats the symbol before it, every other
  character stands for itself. A pattern with another operator of the expression
  syntax in it is outside this fragment (\<open>simplePattern\<close> excludes it).
\<close>

datatype sym = Chr char | Dot

definition simplePattern :: "string \<Rightarrow> bool" where
  "simplePattern p \<longleftrightarrow>
     list_all (\<lambda>c. c \<notin> set [CHR 0x5C, CHR ''^'', CHR ''$'', CHR ''|'', CHR ''?'', CHR ''+'',
                              CHR ''('', CHR '')'', CHR ''['', CHR '']'', CHR ''{'', CHR ''}'']) p"

definition toSym :: "char \<Rightarrow> sym" where
  "toSym c = (if c = CHR ''.'' then Dot else Chr c)"

fun regexParse :: "string \<Rightarrow> (sym \<times> bool) list" where
  "regexParse [] = []"
| "regexParse [c] = [(toSym c, False)]"
| "regexParse (c # d # cs) =
     (if d = CHR ''*'' then (toSym c, True) # regexParse cs
      else (toSym c, False) # regexParse (d # cs))"

fun symOk :: "sym \<Rightarrow> char \<Rightarrow> bool" where
  "symOk Dot c = True"
| "symOk (Chr a) c = (a = c)"

text \<open>Does the expression match a prefix of the text?\<close>

fun matchHere :: "(sym \<times> bool) list \<Rightarrow> string \<Rightarrow> bool" where
  "matchHere [] s = True"
| "matchHere ((a, False) # r) [] = False"
| "matchHere ((a, False) # r) (c # cs) = (symOk a c \<and> matchHere r cs)"
| "matchHere ((a, True) # r) [] = matchHere r []"
| "matchHere ((a, True) # r) (c # cs) =
     (matchHere r (c # cs) \<or> (symOk a c \<and> matchHere ((a, True) # r) cs))"

text \<open>\<open>regex.test(s)\<close>: a match that starts anywhere.\<close>

fun regexSearch :: "(sym \<times> bool) list \<Rightarrow> string \<Rightarrow> bool" where
  "regexSearch r [] = matchHere r []"
| "regexSearch r (c # cs) = (matchHere r (c # cs) \<or> regexSearch r cs)"

text \<open>The test that both loops of \<open>isAllowedDomain\<close> apply to a pattern.\<close>

definition patternTest :: "string \<Rightarrow> string \<Rightarrow> bool" where
  "patternTest host pattern =
     (if CHR ''*'' \<in> set pattern then regexSearch (regexParse (replaceStars pattern)) host
      else strIncludes host pattern)"

definition isAllowedDomain :: "world \<Rightarrow> config \<Rightarrow> string \<Rightarrow> bool" where
  "isAllowedDomain W cfg u =
     (case parseURL W u of
        None \<Rightarrow> False
      | Some urlObj \<Rightarrow>
          if list_ex (patternTest (hostname urlObj)) (blockedDomains cfg) then False
          else if ''*'' \<in> set (allowedDomains cfg) then True
          else list_ex (patternTest (hostname urlObj)) (allowedDomains cfg))"

section \<open>\<open>WebSearchService\<close>: scraping\<close>

text \<open>
  The class \<open>\s\<close> among the characters of the model: tab, line feed, vertical tab,
  form feed, carriage return, blank and no-break space.
\<close>

definition isSpace :: "char \<Rightarrow> bool" where
  "isSpace c \<longleftrightarrow>
     c \<in> set [CHR 0x09, CHR 0x0A, CHR 0x0B, CHR 0x0C, CHR 0x0D, CHR 0x20, CHR 0xA0]"

text \<open>
  \<open>s.replace(/P+/g, r)\<close> for a class \<open>P\<close> of characters: every maximal run of
  characters of the class becomes the single character \<open>r\<close>. The flag says that
  the character before belongs to the run.
\<close>

fun collapse :: "(char \<Rightarrow> bool) \<Rightarrow> char \<Rightarrow> bool \<Rightarrow> string \<Rightarrow> string" where
  "collapse P r inRun [] = []"
| "collapse P r inRun (c # cs) =
     (if P c then (if inRun then collapse P r True cs else r # collapse P r True cs)
      else c # collapse P r False cs)"

definition trim :: "string \<Rightarrow> string" where
  "trim s = rev (dropWhile isSpace (rev (dropWhile isSpace s)))"

definition cleanContent :: "string \<Rightarrow> string" where
  "cleanContent c =
     trim (collapse (\<lambda>x. isSpace x \<and> x \<noteq> CHR 0x0A) CHR '' '' False
            (collapse (\<lambda>x. x = CHR 0x0A) CHR 0x0A False
              (collapse isSpace CHR '' '' False c)))"

text \<open>\<open>s.split(/\s+/).length\<close>: one more than the number of runs of white space.\<close>

fun runs :: "(char \<Rightarrow> bool) \<Rightarrow> bool \<Rightarrow> string \<Rightarrow> nat" where
  "runs P inRun [] = 0"
| "runs P inRun (c # cs) = (if P c \<and> \<not> inRun then 1 else 0) + runs P (P c) cs"

definition splitLength :: "string \<Rightarrow> nat" where
  "splitLength s = 1 + runs isSpace False s"

text \<open>
  The selector loop of \<open>scrapePage\<close>: a candidate replaces the content if it exists
  and its text is longer. The text of \<open>body\<close> is taken if the content found is
  shorter than 100 characters.
\<close>

definition pick :: "string \<Rightarrow> string option \<Rightarrow> string" where
  "pick c candidate =
     (case candidate of None \<Rightarrow> c | Some t \<Rightarrow> if length t > length c then t else c)"

definition extractContent :: "page \<Rightarrow> string" where
  "extractContent pg =
     (let c = foldl pick [] (p_candidates pg)
      in cleanContent (if length c < 100 then p_body pg else c))"

text \<open>
  \<open>scrapePage\<close>. The result \<open>None\<close> is the \<open>null\<close> of the source, returned for a
  domain that is not allowed, for content shorter than 100 characters, and from the
  \<open>catch\<close> for a failed request, an empty body or a URL that does not parse.
\<close>

definition scrapePage :: "world \<Rightarrow> config \<Rightarrow> hit \<Rightarrow> scraped option" where
  "scrapePage W cfg urlInfo =
     (if \<not> isAllowedDomain W cfg (h_url urlInfo) then None
      else case fetch W (h_url urlInfo) of
        Inl e \<Rightarrow> None
      | Inr None \<Rightarrow> None
      | Inr (Some pg) \<Rightarrow>
          (let t = (if trim (p_title pg) \<noteq> [] then trim (p_title pg) else h_title urlInfo);
               d = (case p_description pg of None \<Rightarrow> [] | Some x \<Rightarrow> x);
               c = extractContent pg
           in if length c < 100 then None
              else case parseURL W (h_url urlInfo) of
                None \<Rightarrow> None
              | Some urlObj \<Rightarrow>
                  Some \<lparr> url = h_url urlInfo, title = take 500 t, description = take 1000 d,
                         content = take (maxContentLength cfg) c, domain = hostname urlObj,
                         searchTerm = h_searchTerm urlInfo, wordCount = splitLength c,
                         contentLength = length c \<rparr>))"

text \<open>
  \<open>chunkArray\<close>: \<open>for (let i = 0; i < array.length; i += chunkSize)\<close>. With a chunk
  size of 0 and a non-empty array the loop does not end; \<open>None\<close> is that outcome.
\<close>

partial_function (option) chunkLoop ::
  "'a list \<Rightarrow> nat \<Rightarrow> nat \<Rightarrow> 'a list list \<Rightarrow> 'a list list option" where
  "chunkLoop array chunkSize i chunks =
     (if i < length array
      then chunkLoop array chunkSize (i + chunkSize) (chunks @ [take chunkSize (drop i array)])
      else Some chunks)"

declare chunkLoop.simps [code]

definition chunkArray :: "'a list \<Rightarrow> nat \<Rightarrow> 'a list list option" where
  "chunkArray array chunkSize = chunkLoop array chunkSize 0 []"

text \<open>
  \<open>scrapeContent\<close>: the pages of a chunk are scraped together, the results that are
  not \<open>null\<close> are appended chunk by chunk.
\<close>

definition scrapeContent :: "world \<Rightarrow> config \<Rightarrow> hit list \<Rightarrow> scraped list option" where
  "scrapeContent W cfg urls =
     (case chunkArray urls (maxConcurrentScrapes cfg) of
        None \<Rightarrow> None
      | Some chunks \<Rightarrow> Some (concat (map (List.map_filter (scrapePage W cfg)) chunks)))"

text \<open>
  \<open>getSearchStats\<close>. The domains are counted in a plain object like the items of
  \<open>getTopItems\<close>; the average is \<open>Math.round\<close> of a quotient, which is NaN
  (\<open>None\<close>) for no results.
\<close>

record stats =
  totalResults :: nat
  domains :: "(string \<times> count) list"
  averageContentLength :: "nat option"
  totalWords :: nat
  topDomains :: "(string \<times> count) list"

definition getSearchStats :: "world \<Rightarrow> scraped list \<Rightarrow> stats" where
  "getSearchStats W results =
     (let ds = countItems (map (\<lambda>r. if domain r = [] then ''unknown'' else domain r) results);
          totalContentLength = sum_list (map contentLength results)
      in \<lparr> totalResults = length results,
           domains = ds,
           averageContentLength =
             (if length results = 0 then None
              else Some ((2 * totalContentLength + length results) div (2 * length results))),
           totalWords = sum_list (map wordCount results),
           topDomains = take 10 (arraySort (sortEngine W) byCountDesc (objectEntries ds)) \<rparr>)"

text \<open>
  \<open>performWebSearch\<close>: search, scrape, count. No callee throws, so the \<open>catch\<close> of the
  source is never entered; \<open>None\<close> is a scrape that does not end.
\<close>

record webResults =
  w_searchTerms :: "string list"
  w_sources :: "scraped list"
  w_stats :: stats

definition performWebSearch ::
  "world \<Rightarrow> config \<Rightarrow> string list \<Rightarrow> searchOptions \<Rightarrow> call list \<Rightarrow> (webResults \<times> call list) option"
  where
  "performWebSearch W cfg searchTerms options calls =
     (let (hits, calls') = searchResults W cfg searchTerms options calls
      in case scrapeContent W cfg hits of
           None \<Rightarrow> None
         | Some scrapedContent \<Rightarrow>
             Some (\<lparr> w_searchTerms = searchTerms, w_sources = scrapedContent,
                     w_stats = getSearchStats W scrapedContent \<rparr>, calls'))"

subsection \<open>The blocked-domain patterns as the specification words them\<close>

text \<open>
  A pattern without a star matches a host that contains it. A pattern with a star is a
  glob: a star stands for any run of characters and every other character, the dot
  included, for itself; the glob may match anywhere in the host.
\<close>

definition globMatches :: "string \<Rightarrow> string \<Rightarrow> bool" where
  "globMatches pattern host =
     (if CHR ''*'' \<in> set pattern
      then regexSearch (map (\<lambda>c. if c = CHR ''*'' then (Dot, True) else (Chr c, False)) pattern) host
      else strIncludes host pattern)"

subsection \<open>Sample pages\<close>

definition longText :: string where
  "longText = ''Solar power is the conversion  of energy from sunlight into electricity, either directly using photovoltaics or indirectly using concentrated solar power. ''"

definition articlePage :: page where
  "articlePage = \<lparr> p_title = '' Solar power '', p_description = Some ''About solar power'',
     p_candidates = [Some longText, None, None, None, None, Some ''short'', None, None],
     p_body = ''Menu '' @ longText \<rparr>"

definition stubPage :: page where
  "stubPage = \<lparr> p_title = ''Stub'', p_description = None,
     p_candidates = [None, None, None, None, None, None, None, None],
     p_body = ''Too   short'' \<rparr>"

definition sampleSite :: "string \<Rightarrow> error + page option" where
  "sampleSite u =
     (if u = ''https://example.org/article'' \<or> u = ''http://192.168.0.7/admin'' then Inr (Some articlePage)
      else if u = ''https://example.org/stub'' then Inr (Some stubPage)
      else if u = ''https://example.org/empty'' then Inr None
      else Inl (Error ''ECONNREFUSED''))"

definition sampleHit :: "string \<Rightarrow> hit" where
  "sampleHit u = \<lparr> h_title = ''Hit'', h_url = u, h_snippet = [], h_source = ''duckduckgo'',
     h_searchTerm = Some ''solar'', h_dork = None \<rparr>"

subsection \<open>Sample worlds\<close>

text \<open>A small URL parser for the samples: scheme, host up to the next slash.\<close>

definition sampleParseURL :: "string \<Rightarrow> urlObj option" where
  "sampleParseURL u =
     (if take 8 u = ''https://''
      then Some \<lparr> href = u, hostname = takeWhile (\<lambda>c. c \<noteq> CHR ''/'') (drop 8 u) \<rparr>
      else if take 7 u = ''http://''
      then Some \<lparr> href = u, hostname = takeWhile (\<lambda>c. c \<noteq> CHR ''/'') (drop 7 u) \<rparr>
      else None)"

text \<open>A world whose provider answers a query by \<open>pages\<close> and whose pages are \<open>site\<close>.\<close>

definition sampleWorld ::
  "(string \<Rightarrow> error + rawResult list) \<Rightarrow> (string \<Rightarrow> error + page option) \<Rightarrow> world" where
  "sampleWorld pages site =
     \<lparr> respond = (\<lambda>calls c. pages (fst c)), parseURL = sampleParseURL,
       decodeURIComponent = Some, fetch = site, sortEngine = sampleEngine \<rparr>"

definition noSite :: "string \<Rightarrow> error + page option" where
  "noSite u = Inl (Error ''ECONNREFUSED'')"

text \<open>
  Every query finds the same single page, except that the query \<open>down\<close> fails and
  the query \<open>nothing\<close> finds nothing.
\<close>

definition onePage :: "string \<Rightarrow> error + rawResult list" where
  "onePage q =
     (if q = ''down'' then Inl (Error ''timeout'')
      else if q = ''nothing'' then Inr []
      else Inr [\<lparr> r_title = ''Example'', r_href = Some ''https://example.org/article'', r_snippet = [] \<rparr>])"

text \<open>
  Every plain term finds three pages of its own; a query with a blank or a quotation
  mark in it (every dork is one) finds nothing.
\<close>

definition threePages :: "string \<Rightarrow> error + rawResult list" where
  "threePages q =
     (if CHR '' '' \<in> set q \<or> CHR 0x22 \<in> set q then Inr []
      else Inr (map (\<lambda>k. \<lparr> r_title = ''Page'', r_href = Some (''https://'' @ q @ ''.example.org/'' @ k),
                            r_snippet = [] \<rparr>)
                  [''1'', ''2'', ''3'']))"

definition tenConfig :: config where
  "tenConfig = defaultConfig\<lparr>maxResults := 10\<rparr>"

definition advancedTen :: searchOptions where
  "advancedTen = \<lparr> o_maxResults = Some 10, o_useAdvancedSearch = Some True \<rparr>"

definition noOptions :: searchOptions where
  "noOptions = \<lparr> o_maxResults = None, o_useAdvancedSearch = None \<rparr>"

section \<open>\<open>LLMService\<close>\<close>

text \<open>The object returned by \<open>analyzeContent\<close>, which the report prompt serialises.\<close>

record analysisData =
  individualAnalyses :: "analyzed list"
  consolidatedAnalysis :: summaryData
  ad_totalSources :: nat
  successfulAnalyses :: nat

text \<open>
  The object that \<open>generateSearchTerms\<close> returns. When it is parsed from the model's
  answer any of its properties may be absent.
\<close>

record searchTermsData =
  original_query :: "string option"
  search_terms :: "string list option"
  categories :: "string list option"

text \<open>
  A prompt is determined by the function that builds it and by its arguments. The
  model server answers a prompt with a text or the request fails; it answers an
  embedding request with a vector (or without one) or the request fails. The JSON
  parser of the platform is taken as given, read at the two types that the service
  expects (\<open>None\<close> is a syntax error), and so is the MD5 digest.
\<close>

datatype prompt =
    ExpandTerms string
  | AnalyzeContent string string
  | FinalReport string analysisData

record llm =
  post_generate :: "prompt \<Rightarrow> error + string"
  post_embeddings :: "string \<Rightarrow> error + vector option"
  parseTerms :: "string \<Rightarrow> searchTermsData option"
  parseAnalysis :: "string \<Rightarrow> analysis option"
  md5 :: "string \<Rightarrow> string"
  embeddingModel :: string

text \<open>\<open>generateResponse\<close>: a failure is thrown again under a longer message.\<close>

definition generateResponse :: "llm \<Rightarrow> prompt \<Rightarrow> error + string" where
  "generateResponse L p =
     (case post_generate L p of
        Inl e \<Rightarrow> Inl (Error (''Erro ao gerar resposta: '' @ message e))
      | Inr response \<Rightarrow> Inr response)"

text \<open>
  \<open>response.match(/\{[\s\S]*\}/)\<close>: from the first opening brace to the last closing
  brace after it.
\<close>

definition jsonMatch :: "string \<Rightarrow> string option" where
  "jsonMatch response =
     (let fromBrace = dropWhile (\<lambda>c. c \<noteq> CHR ''{'') response;
          block = rev (dropWhile (\<lambda>c. c \<noteq> CHR ''}'') (rev fromBrace))
      in if block = [] then None else Some block)"

text \<open>
  \<open>response.match(/["']([^"']+)["']/g)\<close>: the texts between a quotation mark and the
  next one, not empty, scanned from left to right without overlap.
\<close>

definition isQuote :: "char \<Rightarrow> bool" where
  "isQuote c \<longleftrightarrow> c = CHR 0x22 \<or> c = CHR 0x27"

function quoted :: "string \<Rightarrow> string list" where
  "quoted [] = []"
| "quoted (c # cs) =
     (if isQuote c \<and> takeWhile (\<lambda>x. \<not> isQuote x) cs \<noteq> [] \<and> dropWhile (\<lambda>x. \<not> isQuote x) cs \<noteq> []
      then takeWhile (\<lambda>x. \<not> isQuote x) cs # quoted (tl (dropWhile (\<lambda>x. \<not> isQuote x) cs))
      else quoted cs)"
  by pat_completeness auto
termination
proof (relation "measure length")
  show "wf (measure length)" by simp
next
  fix c :: char and cs :: string
  have "length (tl (dropWhile (\<lambda>x. \<not> isQuote x) cs)) \<le> length cs"
    using length_dropWhile_le [of "\<lambda>x. \<not> isQuote x" cs] by simp
  then show "(tl (dropWhile (\<lambda>x. \<not> isQuote x) cs), c # cs) \<in> measure length" by simp
next
  fix c :: char and cs :: string
  show "(cs, c # cs) \<in> measure length" by simp
qed

text \<open>The value that both services fall back to.\<close>

definition fallbackTerms :: "string \<Rightarrow> searchTermsData" where
  "fallbackTerms q =
     \<lparr> original_query = Some q, search_terms = Some [q], categories = Some [''geral''] \<rparr>"

text \<open>
  \<open>extractSearchTermsFallback\<close>: a set that starts with the query and takes every
  quoted text, trimmed, of more than 2 and fewer than 50 characters; its first ten
  elements in order of insertion.
\<close>

definition extractSearchTermsFallback :: "string \<Rightarrow> string \<Rightarrow> searchTermsData" where
  "extractSearchTermsFallback q response =
     \<lparr> original_query = Some q,
       search_terms = Some (take 10 (firstSeen
          (q # filter (\<lambda>t. 2 < length t \<and> length t < 50) (map trim (quoted response))))),
       categories = Some [''geral''] \<rparr>"

text \<open>
  \<open>LLMService.generateSearchTerms\<close>. A failed request and a block that does not parse
  are caught and give the fall-back value; an answer without a block goes to
  \<open>extractSearchTermsFallback\<close>. The function never throws, so the \<open>catch\<close> of the
  orchestrator's \<open>generateSearchTerms\<close> around it is never entered, and the
  orchestrator's function returns the same value.
\<close>

definition generateSearchTerms :: "llm \<Rightarrow> string \<Rightarrow> searchTermsData" where
  "generateSearchTerms L q =
     (case generateResponse L (ExpandTerms q) of
        Inl e \<Rightarrow> fallbackTerms q
      | Inr response \<Rightarrow>
          (case jsonMatch response of
             Some block \<Rightarrow> (case parseTerms L block of None \<Rightarrow> fallbackTerms q | Some d \<Rightarrow> d)
           | None \<Rightarrow> extractSearchTermsFallback q response))"

text \<open>\<open>analyzeWebContent\<close>: every failure gives a fixed analysis with score 50.\<close>

definition fallbackAnalysis :: "string \<Rightarrow> analysis" where
  "fallbackAnalysis c =
     \<lparr> relevance_score = Num 50, credibility_score = Num 50, summary = take 500 c @ ''...'',
       key_points = Some [''Conte'' @ [CHR 0xFA] @ ''do dispon'' @ [CHR 0xED] @ ''vel para an''
                           @ [CHR 0xE1] @ ''lise''],
       insights = Some [], topics = Some [''geral''] \<rparr>"

definition analyzeWebContent :: "llm \<Rightarrow> string \<Rightarrow> string \<Rightarrow> analysis" where
  "analyzeWebContent L c q =
     (case generateResponse L (AnalyzeContent c q) of
        Inl e \<Rightarrow> fallbackAnalysis c
      | Inr response \<Rightarrow>
          (case jsonMatch response of
             Some block \<Rightarrow> (case parseAnalysis L block of None \<Rightarrow> fallbackAnalysis c | Some a \<Rightarrow> a)
           | None \<Rightarrow> fallbackAnalysis c))"

text \<open>\<open>generateEmbedding\<close> and \<open>generateFinalReport\<close> throw under a longer message.\<close>

definition generateEmbedding :: "llm \<Rightarrow> string \<Rightarrow> error + vector option" where
  "generateEmbedding L text =
     (case post_embeddings L text of
        Inl e \<Rightarrow> Inl (Error (''Erro ao gerar embedding: '' @ message e))
      | Inr v \<Rightarrow> Inr v)"

definition generateFinalReport :: "llm \<Rightarrow> string \<Rightarrow> analysisData \<Rightarrow> error + string" where
  "generateFinalReport L q a =
     (case generateResponse L (FinalReport q a) of
        Inl e \<Rightarrow> Inl (Error (''Erro ao gerar relat'' @ [CHR 0xF3] @ ''rio: '' @ message e))
      | Inr response \<Rightarrow> Inr response)"

section \<open>\<open>DatabaseService\<close>\<close>

text \<open>The options of \<open>performDeepSearch\<close>; each has a default.\<close>

record deepOptions =
  useAdvancedSearch :: "bool option"
  generateEmbeddings :: "bool option"
  maxSources :: "int option"
  saveToDatabase :: "bool option"

text \<open>
  The metadata of a session: the options of the run and what the two updates add.
  The time stamps are left out.
\<close>

record metadata =
  md_options :: deepOptions
  md_sourcesFound :: "nat option"
  md_reportGenerated :: "bool option"
  md_error :: "string option"

record sessionRow =
  sr_query :: string
  sr_status :: string
  sr_metadata :: metadata

record cacheRow =
  c_preview :: string
  c_embedding :: "vector option"
  c_model :: string

record sourceRow =
  ws_session :: nat
  ws_url :: string
  ws_title :: string
  ws_content :: string
  ws_summary :: string
  ws_domain :: string
  ws_embedding :: "vector option"

record reportRow =
  rp_session :: nat
  rp_content :: string

text \<open>
  A request to the store either works, or no connection is obtained (the
  \<open>pool.connect()\<close> before the \<open>try\<close> throws), or the query fails (inside the
  \<open>try\<close>).
\<close>

datatype dbRequest =
    CreateSession string
  | UpdateSession nat string
  | GetCachedEmbedding string
  | CacheEmbedding string
  | SaveWebSource nat string
  | SaveReport nat

datatype dbFault = Works | ConnectFails error | QueryFails error

text \<open>
  The four tables that the pipeline touches, and the faults of the store. A session
  is identified by its position in \<open>search_sessions\<close> (the schema uses a UUID; the
  identifier is never falsy).
\<close>

record database =
  search_sessions :: "sessionRow list"
  embeddings_cache :: "string \<Rightarrow> cacheRow option"
  web_sources :: "sourceRow list"
  reports :: "reportRow list"
  fault :: "dbRequest \<Rightarrow> dbFault"

text \<open>\<open>createSearchSession\<close>: the new row has the default status \<open>pending\<close>.\<close>

definition createSearchSession ::
  "database \<Rightarrow> string \<Rightarrow> metadata \<Rightarrow> (error + nat \<times> sessionRow) \<times> database" where
  "createSearchSession db q md =
     (case fault db (CreateSession q) of
        ConnectFails e \<Rightarrow> (Inl e, db)
      | QueryFails e \<Rightarrow> (Inl e, db)
      | Works \<Rightarrow>
          (let row = \<lparr> sr_query = q, sr_status = ''pending'', sr_metadata = md \<rparr>
           in (Inr (length (search_sessions db), row),
               db\<lparr>search_sessions := search_sessions db @ [row]\<rparr>)))"

text \<open>
  \<open>updateSearchSession\<close> with a metadata argument, as both callers pass one. The
  \<open>UPDATE\<close> changes no row for an identifier that is not in the table.
\<close>

definition updateSearchSession ::
  "database \<Rightarrow> nat \<Rightarrow> string \<Rightarrow> metadata \<Rightarrow> error + database" where
  "updateSearchSession db sessionId status md =
     (case fault db (UpdateSession sessionId status) of
        ConnectFails e \<Rightarrow> Inl e
      | QueryFails e \<Rightarrow> Inl e
      | Works \<Rightarrow>
          if sessionId < length (search_sessions db)
          then Inr (db\<lparr>search_sessions :=
                      (search_sessions db)
                        [sessionId := (search_sessions db ! sessionId)
                                        \<lparr>sr_status := status, sr_metadata := md\<rparr>]\<rparr>)
          else Inr db)"

text \<open>\<open>getCachedEmbedding\<close>: a failed query is caught and gives \<open>null\<close>.\<close>

definition getCachedEmbedding :: "database \<Rightarrow> string \<Rightarrow> error + cacheRow option" where
  "getCachedEmbedding db contentHash =
     (case fault db (GetCachedEmbedding contentHash) of
        ConnectFails e \<Rightarrow> Inl e
      | QueryFails e \<Rightarrow> Inr None
      | Works \<Rightarrow> Inr (embeddings_cache db contentHash))"

text \<open>
  \<open>cacheEmbedding\<close>: an upsert by hash that replaces the vector and the model and
  keeps the preview of an existing row. A failed query is caught, and so is the
  \<open>embedding.join\<close> of a missing vector.
\<close>

definition cacheEmbedding ::
  "database \<Rightarrow> string \<Rightarrow> string \<Rightarrow> vector option \<Rightarrow> string \<Rightarrow> error + database" where
  "cacheEmbedding db contentHash contentPreview embedding modelUsed =
     (case fault db (CacheEmbedding contentHash) of
        ConnectFails e \<Rightarrow> Inl e
      | QueryFails e \<Rightarrow> Inr db
      | Works \<Rightarrow>
          (case embedding of
             None \<Rightarrow> Inr db
           | Some v \<Rightarrow>
               Inr (db\<lparr>embeddings_cache := (embeddings_cache db)
                      (contentHash \<mapsto>
                         \<lparr> c_preview = (case embeddings_cache db contentHash of
                                           None \<Rightarrow> take 500 contentPreview
                                         | Some old \<Rightarrow> c_preview old),
                           c_embedding = Some v, c_model = modelUsed \<rparr>)\<rparr>)))"

text \<open>\<open>saveWebSource\<close> and \<open>saveReport\<close> throw every failure again.\<close>

definition saveWebSource ::
  "config \<Rightarrow> database \<Rightarrow> nat \<Rightarrow> scraped \<Rightarrow> string \<Rightarrow> vector option \<Rightarrow> error + database" where
  "saveWebSource cfg db sessionId src summ embedding =
     (case fault db (SaveWebSource sessionId (url src)) of
        ConnectFails e \<Rightarrow> Inl e
      | QueryFails e \<Rightarrow> Inl e
      | Works \<Rightarrow>
          Inr (db\<lparr>web_sources := web_sources db @
                 [\<lparr> ws_session = sessionId, ws_url = url src, ws_title = take 500 (title src),
                    ws_content = take (maxContentLength cfg) (content src),
                    ws_summary = take 2000 summ, ws_domain = domain src,
                    ws_embedding = embedding \<rparr>]\<rparr>))"

definition saveReport :: "database \<Rightarrow> nat \<Rightarrow> string \<Rightarrow> error + database" where
  "saveReport db sessionId c =
     (case fault db (SaveReport sessionId) of
        ConnectFails e \<Rightarrow> Inl e
      | QueryFails e \<Rightarrow> Inl e
      | Works \<Rightarrow> Inr (db\<lparr>reports := reports db @ [\<lparr> rp_session = sessionId, rp_content = c \<rparr>]\<rparr>))"

section \<open>\<open>DeepSearchOrchestrator\<close>\<close>

subsection \<open>\<open>analyzeSingleSource\<close>\<close>

text \<open>
  The text that is embedded and hashed:
  \<open>`${source.title}\n\n${source.content}`.substring(0, 8000)\<close>.
\<close>

definition contentForEmbedding :: "scraped \<Rightarrow> string" where
  "contentForEmbedding src = take 8000 (title src @ [CHR 0x0A, CHR 0x0A] @ content src)"

text \<open>What \<open>analyzeSingleSource\<close> asks of the cache and of the embedding model.\<close>

datatype event = CacheLookup string | EmbedCall string

text \<open>
  The end of \<open>analyzeSingleSource\<close>: the source is saved if the run has a session, and
  the result carries the first ten components of the vector. A failed save is caught
  by the outer \<open>catch\<close>, which returns \<open>null\<close>.
\<close>

definition finishSource ::
  "config \<Rightarrow> nat option \<Rightarrow> scraped \<Rightarrow> analysis \<Rightarrow> vector option \<Rightarrow> database \<Rightarrow> event list
   \<Rightarrow> analyzed option \<times> database \<times> event list" where
  "finishSource cfg sessionId src a embedding db events =
     (let result = \<lparr> a_source = src, a_analysis = a, a_embedding = map_option (take 10) embedding \<rparr>
      in case sessionId of
           None \<Rightarrow> (Some result, db, events)
         | Some sid \<Rightarrow>
             (case saveWebSource cfg db sid src (summary a) embedding of
                Inl e \<Rightarrow> (None, db, events)
              | Inr db' \<Rightarrow> (Some result, db', events)))"

text \<open>
  \<open>analyzeSingleSource\<close>. The cache is asked first; a row with a vector is used as it
  is. Otherwise the model is called: its failure leaves the source without a vector,
  its answer is the vector and is put into the cache (a failure of that is caught
  too). A failed connection of the look-up goes to the outer \<open>catch\<close>.
\<close>

definition analyzeSingleSource ::
  "llm \<Rightarrow> config \<Rightarrow> string \<Rightarrow> scraped \<Rightarrow> bool \<Rightarrow> nat option \<Rightarrow> database
   \<Rightarrow> analyzed option \<times> database \<times> event list" where
  "analyzeSingleSource L cfg q src genEmbeddings sessionId db =
     (let a = analyzeWebContent L (content src) q in
      if genEmbeddings \<and> num_gt (relevance_score a) 30 then
        (let contentText = contentForEmbedding src;
             contentHash = md5 L contentText
         in case getCachedEmbedding db contentHash of
              Inl e \<Rightarrow> (None, db, [CacheLookup contentHash])
            | Inr cached \<Rightarrow>
                (case (case cached of None \<Rightarrow> None | Some row \<Rightarrow> c_embedding row) of
                   Some v \<Rightarrow> finishSource cfg sessionId src a (Some v) db [CacheLookup contentHash]
                 | None \<Rightarrow>
                     (case generateEmbedding L contentText of
                        Inl e \<Rightarrow>
                          finishSource cfg sessionId src a None db
                            [CacheLookup contentHash, EmbedCall contentText]
                      | Inr v \<Rightarrow>
                          finishSource cfg sessionId src a v
                            (case cacheEmbedding db contentHash (take 500 contentText) v
                                    (embeddingModel L) of
                               Inl e \<Rightarrow> db | Inr db' \<Rightarrow> db')
                            [CacheLookup contentHash, EmbedCall contentText])))
      else finishSource cfg sessionId src a None db [])"

subsection \<open>\<open>analyzeContent\<close>\<close>

text \<open>
  The members of a batch run concurrently in the source. \<open>analyzeBatch\<close> is the
  schedule in which they finish one after the other, in the order of the batch.
\<close>

fun analyzeBatch ::
  "llm \<Rightarrow> config \<Rightarrow> string \<Rightarrow> bool \<Rightarrow> nat option \<Rightarrow> scraped list \<Rightarrow> database
   \<Rightarrow> analyzed list \<times> database" where
  "analyzeBatch L cfg q gen sessionId [] db = ([], db)"
| "analyzeBatch L cfg q gen sessionId (src # srcs) db =
     (let (r, db', events) = analyzeSingleSource L cfg q src gen sessionId db;
          (rs, db'') = analyzeBatch L cfg q gen sessionId srcs db'
      in ((case r of None \<Rightarrow> rs | Some x \<Rightarrow> x # rs), db''))"

fun analyzeBatches ::
  "llm \<Rightarrow> config \<Rightarrow> string \<Rightarrow> bool \<Rightarrow> nat option \<Rightarrow> scraped list list \<Rightarrow> database
   \<Rightarrow> analyzed list \<times> database" where
  "analyzeBatches L cfg q gen sessionId [] db = ([], db)"
| "analyzeBatches L cfg q gen sessionId (batch # batches) db =
     (let (rs, db') = analyzeBatch L cfg q gen sessionId batch db;
          (rss, db'') = analyzeBatches L cfg q gen sessionId batches db'
      in (rs @ rss, db''))"

text \<open>
  \<open>analyzeContent\<close> under that schedule, on the engine \<open>engine\<close>. \<open>None\<close> is a batch
  loop that does not end (a batch size of 0); nothing in it throws.
\<close>

definition analyzeContent ::
  "(entries \<Rightarrow> entries) \<Rightarrow> llm \<Rightarrow> config \<Rightarrow> string \<Rightarrow> webResults \<Rightarrow> bool \<Rightarrow> nat option \<Rightarrow> database
   \<Rightarrow> ((error + analysisData) \<times> database) option" where
  "analyzeContent engine L cfg q web gen sessionId db =
     (case chunkArray (w_sources web) (parallelProcessingLimit cfg) of
        None \<Rightarrow> None
      | Some batches \<Rightarrow>
          (let (analyses, db') = analyzeBatches L cfg q gen sessionId batches db
           in Some (Inr \<lparr> individualAnalyses = analyses,
                           consolidatedAnalysis = consolidateAnalyses engine q analyses,
                           ad_totalSources = length (w_sources web),
                           successfulAnalyses = length analyses \<rparr>, db')))"

subsection \<open>\<open>generateReport\<close>\<close>

text \<open>
  The report. Its title, file name and time stamp, which are formatted from the
  query and the clock, are left out.
\<close>

record report =
  r_content :: string
  r_query :: string
  r_sourceCount :: nat
  r_successfulAnalyses :: nat

definition generateReport ::
  "llm \<Rightarrow> string \<Rightarrow> analysisData \<Rightarrow> nat option \<Rightarrow> database \<Rightarrow> (error + report) \<times> database"
  where
  "generateReport L q a sessionId db =
     (case generateFinalReport L q a of
        Inl e \<Rightarrow> (Inl e, db)
      | Inr reportContent \<Rightarrow>
          (let rep = \<lparr> r_content = reportContent, r_query = q, r_sourceCount = ad_totalSources a,
                       r_successfulAnalyses = successfulAnalyses a \<rparr>
           in case sessionId of
                None \<Rightarrow> (Inr rep, db)
              | Some sid \<Rightarrow>
                  (case saveReport db sid reportContent of
                     Inl e \<Rightarrow> (Inl e, db)
                   | Inr db' \<Rightarrow> (Inr rep, db'))))"

subsection \<open>\<open>performDeepSearch\<close>\<close>

record deepResult =
  dr_sessionId :: "nat option"
  dr_query :: string
  dr_searchTerms :: searchTermsData
  dr_webResults :: webResults
  dr_analysis :: analysisData
  dr_report :: report

text \<open>
  The \<open>catch\<close> of \<open>performDeepSearch\<close>: with a session, the session is updated to
  \<open>error\<close> with the message added to the metadata that the session was created
  with, and the error is thrown again; if the update throws, its error leaves the
  function instead.
\<close>

definition failRun ::
  "(nat \<times> sessionRow) option \<Rightarrow> error \<Rightarrow> database \<Rightarrow> (error + deepResult) \<times> database" where
  "failRun session e db =
     (case session of
        None \<Rightarrow> (Inl e, db)
      | Some (sid, row) \<Rightarrow>
          (case updateSearchSession db sid ''error'' ((sr_metadata row)\<lparr>md_error := Some (message e)\<rparr>) of
             Inl e' \<Rightarrow> (Inl e', db)
           | Inr db' \<Rightarrow> (Inl e, db')))"

text \<open>
  Steps 3 to 6 of \<open>performDeepSearch\<close>, after the search terms are there. The
  analysis of the sources is a parameter \<open>analyze\<close> (any schedule of its batches);
  \<open>None\<close> is a step that does not return. Reading \<open>search_terms.length\<close> of a
  value without that property throws a type error.
\<close>

definition afterTerms ::
  "(string \<Rightarrow> webResults \<Rightarrow> bool \<Rightarrow> nat option \<Rightarrow> database \<Rightarrow> ((error + analysisData) \<times> database) option)
   \<Rightarrow> llm \<Rightarrow> world \<Rightarrow> config \<Rightarrow> string \<Rightarrow> deepOptions \<Rightarrow> (nat \<times> sessionRow) option
   \<Rightarrow> searchTermsData \<Rightarrow> database \<Rightarrow> ((error + deepResult) \<times> database) option" where
  "afterTerms analyze L W cfg q options session searchTermsData db =
     (case search_terms searchTermsData of
        None \<Rightarrow>
          Some (failRun session (Error ''Cannot read properties of undefined (reading 'length')'') db)
      | Some terms \<Rightarrow>
          (case performWebSearch W cfg terms
                  \<lparr> o_maxResults = Some (withDefault (maxSources options) (maxResults cfg)),
                    o_useAdvancedSearch = Some (withDefault (useAdvancedSearch options) True) \<rparr> [] of
             None \<Rightarrow> None
           | Some (web, calls) \<Rightarrow>
               (case analyze q web (withDefault (generateEmbeddings options) True)
                       (map_option fst session) db of
                  None \<Rightarrow> None
                | Some (Inl e, db1) \<Rightarrow> Some (failRun session e db1)
                | Some (Inr a, db1) \<Rightarrow>
                    (case generateReport L q a (map_option fst session) db1 of
                       (Inl e, db2) \<Rightarrow> Some (failRun session e db2)
                     | (Inr rep, db2) \<Rightarrow>
                         (let result = \<lparr> dr_sessionId = map_option fst session, dr_query = q,
                                          dr_searchTerms = searchTermsData, dr_webResults = web,
                                          dr_analysis = a, dr_report = rep \<rparr>
                          in case session of
                               None \<Rightarrow> Some (Inr result, db2)
                             | Some (sid, row) \<Rightarrow>
                                 (case updateSearchSession db2 sid ''completed''
                                         ((sr_metadata row)
                                            \<lparr>md_sourcesFound := Some (length (w_sources web)),
                                             md_reportGenerated := Some True\<rparr>) of
                                    Inl e \<Rightarrow> Some (failRun session e db2)
                                  | Inr db3 \<Rightarrow> Some (Inr result, db3)))))))"

text \<open>
  \<open>performDeepSearch\<close>: the session is created first unless \<open>saveToDatabase\<close> is
  off; a failure to create it leaves the function with no session to mark.
\<close>

definition performDeepSearch ::
  "(string \<Rightarrow> webResults \<Rightarrow> bool \<Rightarrow> nat option \<Rightarrow> database \<Rightarrow> ((error + analysisData) \<times> database) option)
   \<Rightarrow> llm \<Rightarrow> world \<Rightarrow> config \<Rightarrow> string \<Rightarrow> deepOptions \<Rightarrow> database
   \<Rightarrow> ((error + deepResult) \<times> database) option" where
  "performDeepSearch analyze L W cfg q options db =
     (if withDefault (saveToDatabase options) True then
        (case createSearchSession db q
                \<lparr> md_options = options, md_sourcesFound = None, md_reportGenerated = None,
                  md_error = None \<rparr> of
           (Inl e, db0) \<Rightarrow> Some (Inl e, db0)
         | (Inr session, db0) \<Rightarrow>
             afterTerms analyze L W cfg q options (Some session) (generateSearchTerms L q) db0)
      else afterTerms analyze L W cfg q options None (generateSearchTerms L q) db)"

subsection \<open>A sample model server and store\<close>

definition qq :: "string \<Rightarrow> string" where
  "qq s = CHR 0x22 # s @ [CHR 0x22]"

definition termsJson :: string where
  "termsJson = ''{'' @ qq ''search_terms'' @ '':['' @ qq ''solar'' @ '']}''"

definition analysisJson :: string where
  "analysisJson = ''{'' @ qq ''relevance_score'' @ '':80}''"

text \<open>
  The sample server fails to expand the query \<open>offline\<close>, answers the expansion of
  \<open>broken\<close> with a block that is not JSON, that of \<open>chatty\<close> with prose that
  quotes two phrases and that of \<open>keyless\<close> with an empty object, and fails to write
  the report for the query \<open>doomed\<close>.
\<close>

definition sampleAnswers :: "prompt \<Rightarrow> error + string" where
  "sampleAnswers p =
     (case p of
        ExpandTerms q \<Rightarrow>
          if q = ''offline'' then Inl (Error ''connect ECONNREFUSED'')
          else if q = ''broken'' then Inr ''Sure: {search_terms: solar''
          else if q = ''brokenblock'' then Inr ''Sure: {search_terms: solar}''
          else if q = ''chatty'' then Inr (''Try '' @ qq ''solar panels'' @ '' or '' @ qq ''wind turbines'')
          else if q = ''keyless'' then Inr ''{}''
          else Inr (''Here you are: '' @ termsJson)
      | AnalyzeContent c q \<Rightarrow> Inr analysisJson
      | FinalReport q a \<Rightarrow>
          if q = ''doomed'' then Inl (Error ''model crashed'') else Inr ''# Report'')"

definition sampleParseTerms :: "string \<Rightarrow> searchTermsData option" where
  "sampleParseTerms b =
     (if b = termsJson
      then Some \<lparr> original_query = None, search_terms = Some [''solar''], categories = None \<rparr>
      else if b = ''{}''
      then Some \<lparr> original_query = None, search_terms = None, categories = None \<rparr>
      else None)"

definition sampleParseAnalysis :: "string \<Rightarrow> analysis option" where
  "sampleParseAnalysis b =
     (if b = analysisJson
      then Some \<lparr> relevance_score = Num 80, credibility_score = Undefined, summary = [],
                  key_points = None, insights = None, topics = None \<rparr>
      else None)"

text \<open>A stand-in for the digest that keeps its argument readable.\<close>

definition sampleDigest :: "string \<Rightarrow> string" where
  "sampleDigest s = ''md5('' @ s @ '')''"

definition sampleLLM :: llm where
  "sampleLLM = \<lparr> post_generate = sampleAnswers, post_embeddings = (\<lambda>t. Inr (Some [1, 2, 3])),
     parseTerms = sampleParseTerms, parseAnalysis = sampleParseAnalysis, md5 = sampleDigest,
     embeddingModel = ''nomic-embed-text'' \<rparr>"

definition emptyDatabase :: database where
  "emptyDatabase = \<lparr> search_sessions = [], embeddings_cache = (\<lambda>k. None), web_sources = [],
     reports = [], fault = (\<lambda>r. Works) \<rparr>"

definition plainOptions :: deepOptions where
  "plainOptions = \<lparr> useAdvancedSearch = Some False, generateEmbeddings = None,
     maxSources = Some 3, saveToDatabase = None \<rparr>"

definition shortSource :: scraped where
  "shortSource = \<lparr> url = ''https://example.org/a'', title = ''A'', description = [],
     content = ''text'', domain = ''example.org'', searchTerm = Some ''q'', wordCount = 1,
     contentLength = 4 \<rparr>"

text \<open>A store that holds a vector for the sample source.\<close>

definition warmDatabase :: database where
  "warmDatabase = emptyDatabase\<lparr>embeddings_cache :=
      (\<lambda>k. if k = sampleDigest (''A'' @ [CHR 0x0A, CHR 0x0A] @ ''text'')
           then Some \<lparr> c_preview = ''A'', c_embedding = Some [7, 8, 9], c_model = ''nomic-embed-text'' \<rparr>
           else None)\<rparr>"

section \<open>Properties of the consolidation\<close>

subsection \<open>Counting\<close>

lemma firstSeen_snoc:
  "firstSeen (xs @ [x]) = (if x \<in> set xs then firstSeen xs else firstSeen xs @ [x])"
  by (simp add: firstSeen_def)

lemma set_firstSeen [simp]: "set (firstSeen xs) = set xs"
  by (simp add: firstSeen_def)

lemma distinct_firstSeen [simp]: "distinct (firstSeen xs)"
  by (simp add: firstSeen_def)

lemma update_tabulate_mem:
  "x \<in> set ks \<Longrightarrow> distinct ks \<Longrightarrow>
   AList.update x v (map (\<lambda>k. (k, f k)) ks) = map (\<lambda>k. (k, if k = x then v else f k)) ks"
  by (induction ks) auto

lemma update_tabulate_fresh:
  "x \<notin> set ks \<Longrightarrow> AList.update x v (map (\<lambda>k. (k, f k)) ks) = map (\<lambda>k. (k, f k)) ks @ [(x, v)]"
  by (induction ks) auto

lemma map_of_tabulate:
  "map_of (map (\<lambda>k. (k, f k)) ks) x = (if x \<in> set ks then Some (f x) else None)"
  by (induction ks) auto

lemma bump_tabulate:
  assumes "\<not> inherited x" "distinct ks"
  shows "bump (map (\<lambda>k. (k, Count (f k))) ks) x =
     (if x \<in> set ks then map (\<lambda>k. (k, Count (if k = x then f k + 1 else f k))) ks
      else map (\<lambda>k. (k, Count (f k))) ks @ [(x, Count 1)])"
proof -
  from assms have np: "x \<noteq> ''__proto__''" by (auto simp: inherited_def)
  show ?thesis
  proof (cases "x \<in> set ks")
    case True
    with assms np show ?thesis
      by (simp add: bump_def map_of_tabulate update_tabulate_mem if_distrib cong: if_cong)
  next
    case False
    with assms np show ?thesis
      by (simp add: bump_def map_of_tabulate update_tabulate_fresh)
  qed
qed

lemma countItems_plain:
  "\<not> list_ex inherited items \<Longrightarrow>
   foldl bump [] items = map (\<lambda>k. (k, Count (count_list items k))) (firstSeen items)"
proof (induction items rule: rev_induct)
  case Nil
  then show ?case by (simp add: firstSeen_def)
next
  case (snoc x xs)
  then have IH: "foldl bump [] xs = map (\<lambda>k. (k, Count (count_list xs k))) (firstSeen xs)"
    and nx: "\<not> inherited x" by (auto simp: list_ex_iff)
  have "foldl bump [] (xs @ [x]) = bump (map (\<lambda>k. (k, Count (count_list xs k))) (firstSeen xs)) x"
    by (simp add: IH)
  also have "\<dots> = map (\<lambda>k. (k, Count (count_list (xs @ [x]) k))) (firstSeen (xs @ [x]))"
    using nx by (auto simp: bump_tabulate firstSeen_snoc)
  finally show ?case .
qed

subsection \<open>Enumeration and sorting\<close>

lemma insort_key_tabulate:
  "insort_key (\<lambda>e. f (fst e)) (k, g k) (map (\<lambda>k. (k, g k)) ks) = map (\<lambda>k. (k, g k)) (insort_key f k ks)"
  by (induction ks) auto

lemma sort_key_tabulate:
  "sort_key (\<lambda>e. f (fst e)) (map (\<lambda>k. (k, g k)) ks) = map (\<lambda>k. (k, g k)) (sort_key f ks)"
  by (induction ks) (auto simp: insort_key_tabulate)

lemma objectEntries_tabulate:
  "objectEntries (map (\<lambda>k. (k, g k)) ks) = map (\<lambda>k. (k, g k)) (propertyOrder ks)"
  by (simp add: objectEntries_def propertyOrder_def filter_map comp_def sort_key_tabulate)

lemma sortCompare_counted [simp]:
  "sortCompare byCountDesc (counted a) (counted b) = int (snd b) - int (snd a)"
  by (simp add: sortCompare_def counted_def)

lemma consistentOn_counted: "consistentOn byCountDesc (map counted es)"
  by (auto simp: consistentOn_def list_all_iff) (simp add: counted_def)

lemma insertSorted_counted:
  "insertSorted (sortCompare byCountDesc) (counted e) (map counted es)
   = map counted (insort_key (\<lambda>e. - int (snd e)) e es)"
  by (induction es) auto

lemma foldr_insertSorted_counted:
  "foldr (insertSorted (sortCompare byCountDesc)) (map counted es) []
   = map counted (sort_key (\<lambda>e. - int (snd e)) es)"
  by (induction es) (auto simp: insertSorted_counted)

lemma arraySort_counted:
  "arraySort engine byCountDesc (map counted es) = map counted (sort_key (\<lambda>e. - int (snd e)) es)"
  by (simp add: arraySort_def consistentOn_counted foldr_insertSorted_counted)

lemma getTopItems_ranking:
  assumes "\<not> list_ex inherited items"
  shows "getTopItems engine items limit = map counted (ranking items limit)"
proof -
  have "objectEntries (countItems items)
        = map counted (map (\<lambda>k. (k, count_list items k)) (propertyOrder (firstSeen items)))"
    using assms
    by (simp add: countItems_def countItems_plain objectEntries_tabulate counted_def comp_def)
  then show ?thesis
    by (simp only: getTopItems_def ranking_def arraySort_counted take_map)
qed

lemma propertyOrder_plain: "\<not> list_ex isArrayIndex ks \<Longrightarrow> propertyOrder ks = ks"
  by (simp add: propertyOrder_def list_ex_iff)

lemma ranking_plain:
  "\<not> list_ex isArrayIndex items \<Longrightarrow> ranking items limit = topItemsSpec items limit"
  by (simp add: ranking_def topItemsSpec_def propertyOrder_plain list_ex_iff)

lemma ranking_length: "length (ranking items limit) \<le> limit"
  by (simp add: ranking_def)

lemma ranking_descending: "sorted (map (\<lambda>e. - int (snd e)) (ranking items limit))"
  unfolding ranking_def take_map [symmetric] by (rule sorted_wrt_take) (rule sorted_sort_key)

lemma ranking_counts: "e \<in> set (ranking items limit) \<Longrightarrow> snd e = count_list items (fst e)"
  by (auto simp: ranking_def dest!: in_set_takeD)

text \<open>
  C6, as amended. For item texts that do not name a member inherited from
  \<open>Object.prototype\<close>, each of the three top lists of \<open>consolidateAnalyses\<close> is a
  function of the pooled items alone: the number of exact occurrences of every
  distinct item, sorted stably by descending count, cut to the first 10. Ties keep
  the order in which the counting object lists its keys: array-index texts first in
  ascending numeric order, then all other items in first-seen order; where no item
  is an array-index text this is the first-seen order of the specification.
\<close>

theorem consolidation_ranking:
  assumes "\<not> list_ex inherited (flatMap (\<lambda>a. orEmpty (key_points (a_analysis a))) analyses)"
    and "\<not> list_ex inherited (flatMap (\<lambda>a. orEmpty (insights (a_analysis a))) analyses)"
    and "\<not> list_ex inherited (flatMap (\<lambda>a. orEmpty (topics (a_analysis a))) analyses)"
  shows "topKeyPoints (consolidateAnalyses engine q analyses)
           = map counted (ranking (flatMap (\<lambda>a. orEmpty (key_points (a_analysis a))) analyses) 10)
       \<and> topInsights (consolidateAnalyses engine q analyses)
           = map counted (ranking (flatMap (\<lambda>a. orEmpty (insights (a_analysis a))) analyses) 10)
       \<and> topTopics (consolidateAnalyses engine q analyses)
           = map counted (ranking (flatMap (\<lambda>a. orEmpty (topics (a_analysis a))) analyses) 10)
       \<and> (\<not> list_ex isArrayIndex (flatMap (\<lambda>a. orEmpty (key_points (a_analysis a))) analyses) \<longrightarrow>
            topKeyPoints (consolidateAnalyses engine q analyses)
            = map counted (topItemsSpec (flatMap (\<lambda>a. orEmpty (key_points (a_analysis a))) analyses) 10))"
  using assms by (simp add: consolidateAnalyses_def getTopItems_ranking ranking_plain)

theorem consolidation_ranking_witness:
  "\<not> list_ex inherited [''wind'', ''solar'', ''solar'', ''7'']
   \<and> topKeyPoints (consolidateAnalyses sampleEngine ''q''
       [sampleAnalysis 80 [''wind'', ''solar''], sampleAnalysis 20 [''solar'', ''7'']])
     = [(''solar'', Count 2), (''7'', Count 1), (''wind'', Count 1)]
   \<and> topInsights (consolidateAnalyses sampleEngine ''q''
       [sampleAnalysis 80 [''wind'', ''solar''], sampleAnalysis 20 [''solar'', ''7'']]) = []
   \<and> topTopics (consolidateAnalyses sampleEngine ''q''
       [sampleAnalysis 80 [''wind'', ''solar''], sampleAnalysis 20 [''solar'', ''7'']])
     = [(''geral'', Count 2)]"
  using consolidation_ranking [of "[sampleAnalysis 80 [''wind'', ''solar''], sampleAnalysis 20 [''solar'', ''7'']]"
                                  sampleEngine "''q''"]
  by (simp add: sampleAnalysis_def flatMap_def orEmpty_def inherited_def ranking_def
      firstSeen_def propertyOrder_def isArrayIndex_def isDigit_def decimalValue_def counted_def)

text \<open>
  C6 as stated fails on ties between array-index texts: the key point 10 is seen
  before 9, and both occur once, yet the code lists 9 first.
\<close>

theorem consolidation_ranking_counterexample:
  "topKeyPoints (consolidateAnalyses sampleEngine ''q'' [sampleAnalysis 80 [''10'', ''9'']])
     = [(''9'', Count 1), (''10'', Count 1)]
   \<and> map counted (topItemsSpec [''10'', ''9''] 10) = [(''10'', Count 1), (''9'', Count 1)]"
  by (simp add: consolidateAnalyses_def sampleAnalysis_def flatMap_def orEmpty_def
      getTopItems_def countItems_def bump_def inherited_def objectEntries_def isArrayIndex_def
      isDigit_def decimalValue_def arraySort_def consistentOn_def sortCompare_def topItemsSpec_def
      firstSeen_def counted_def)

subsection \<open>Relevance tiers\<close>

lemma tier_filters:
  assumes "map (\<lambda>a. relevance_score (a_analysis a)) analyses = map Num scores"
  shows "length (filter isHigh analyses) = length (filter (\<lambda>s. 70 \<le> s) scores)"
    and "length (filter isMedium analyses) = length (filter (\<lambda>s. 40 \<le> s \<and> s < 70) scores)"
    and "length (filter isLow analyses) = length (filter (\<lambda>s. s < 40) scores)"
  using assms
  by (induction analyses arbitrary: scores; auto simp: isHigh_def isMedium_def isLow_def)+

lemma tier_sum:
  "length (filter (\<lambda>s. 70 \<le> s) scores) + length (filter (\<lambda>s. 40 \<le> s \<and> s < 70) scores)
   + length (filter (\<lambda>s. s < 40) scores) = length (scores :: real list)"
  by (induction scores) auto

text \<open>
  C10. Let the relevance scores of the analyses be the numbers \<open>scores\<close>, in order.
  Then the three tier counts of \<open>consolidateAnalyses\<close> are the numbers of positions
  whose score is at least 70, at least 40 and below 70, and below 40; these three
  sets of positions are pairwise disjoint and together are all positions, so every
  analysis is counted in exactly one tier; and the three counts add up to
  \<open>totalSources\<close>, the number of analyses.
\<close>

theorem tiers_partition:
  assumes "map (\<lambda>a. relevance_score (a_analysis a)) analyses = map Num scores"
  shows "highRelevanceSources (consolidateAnalyses engine q analyses)
           = card {i. i < length analyses \<and> 70 \<le> scores ! i}
       \<and> mediumRelevanceSources (consolidateAnalyses engine q analyses)
           = card {i. i < length analyses \<and> 40 \<le> scores ! i \<and> scores ! i < 70}
       \<and> lowRelevanceSources (consolidateAnalyses engine q analyses)
           = card {i. i < length analyses \<and> scores ! i < 40}
       \<and> totalSources (consolidateAnalyses engine q analyses) = length analyses
       \<and> {i. i < length analyses \<and> 70 \<le> scores ! i}
           \<union> {i. i < length analyses \<and> 40 \<le> scores ! i \<and> scores ! i < 70}
           \<union> {i. i < length analyses \<and> scores ! i < 40} = {i. i < length analyses}
       \<and> {i. i < length analyses \<and> 70 \<le> scores ! i}
           \<inter> {i. i < length analyses \<and> 40 \<le> scores ! i \<and> scores ! i < 70} = {}
       \<and> {i. i < length analyses \<and> 70 \<le> scores ! i}
           \<inter> {i. i < length analyses \<and> scores ! i < 40} = {}
       \<and> {i. i < length analyses \<and> 40 \<le> scores ! i \<and> scores ! i < 70}
           \<inter> {i. i < length analyses \<and> scores ! i < 40} = {}
       \<and> highRelevanceSources (consolidateAnalyses engine q analyses)
         + mediumRelevanceSources (consolidateAnalyses engine q analyses)
         + lowRelevanceSources (consolidateAnalyses engine q analyses)
         = totalSources (consolidateAnalyses engine q analyses)"
proof -
  from assms have len: "length analyses = length scores"
    using length_map [of "\<lambda>a. relevance_score (a_analysis a)" analyses] by simp
  have high: "highRelevanceSources (consolidateAnalyses engine q analyses)
                = card {i. i < length analyses \<and> 70 \<le> scores ! i}"
    unfolding len by (simp add: consolidateAnalyses_def tier_filters(1) [OF assms])
       (simp only: length_filter_conv_card)
  have medium: "mediumRelevanceSources (consolidateAnalyses engine q analyses)
                = card {i. i < length analyses \<and> 40 \<le> scores ! i \<and> scores ! i < 70}"
    unfolding len by (simp add: consolidateAnalyses_def tier_filters(2) [OF assms])
       (simp only: length_filter_conv_card)
  have low: "lowRelevanceSources (consolidateAnalyses engine q analyses)
                = card {i. i < length analyses \<and> scores ! i < 40}"
    unfolding len by (simp add: consolidateAnalyses_def tier_filters(3) [OF assms])
       (simp only: length_filter_conv_card)
  have total: "totalSources (consolidateAnalyses engine q analyses) = length analyses"
    by (simp add: consolidateAnalyses_def)
  have sum: "highRelevanceSources (consolidateAnalyses engine q analyses)
         + mediumRelevanceSources (consolidateAnalyses engine q analyses)
         + lowRelevanceSources (consolidateAnalyses engine q analyses)
         = totalSources (consolidateAnalyses engine q analyses)"
    using tier_sum [of scores] by (simp add: consolidateAnalyses_def tier_filters [OF assms] len)
  have cover: "{i. i < length analyses \<and> 70 \<le> scores ! i}
           \<union> {i. i < length analyses \<and> 40 \<le> scores ! i \<and> scores ! i < 70}
           \<union> {i. i < length analyses \<and> scores ! i < 40} = {i. i < length analyses}"
    by auto
  have apart: "{i. i < length analyses \<and> 70 \<le> scores ! i}
           \<inter> {i. i < length analyses \<and> 40 \<le> scores ! i \<and> scores ! i < 70} = {}"
      "{i. i < length analyses \<and> 70 \<le> scores ! i}
           \<inter> {i. i < length analyses \<and> scores ! i < 40} = {}"
      "{i. i < length analyses \<and> 40 \<le> scores ! i \<and> scores ! i < 70}
           \<inter> {i. i < length analyses \<and> scores ! i < 40} = {}"
    by auto
  from high medium low total cover apart sum show ?thesis by (intro conjI)
qed

theorem tiers_partition_witness:
  "map (\<lambda>a. relevance_score (a_analysis a))
      [sampleAnalysis 70 [], sampleAnalysis 69.5 [], sampleAnalysis 40 [], sampleAnalysis 12 [],
       sampleAnalysis 90 []]
     = map Num [70, 69.5, 40, 12, 90]
   \<and> highRelevanceSources (consolidateAnalyses sampleEngine ''q''
      [sampleAnalysis 70 [], sampleAnalysis 69.5 [], sampleAnalysis 40 [], sampleAnalysis 12 [],
       sampleAnalysis 90 []]) = 2
   \<and> mediumRelevanceSources (consolidateAnalyses sampleEngine ''q''
      [sampleAnalysis 70 [], sampleAnalysis 69.5 [], sampleAnalysis 40 [], sampleAnalysis 12 [],
       sampleAnalysis 90 []]) = 2
   \<and> lowRelevanceSources (consolidateAnalyses sampleEngine ''q''
      [sampleAnalysis 70 [], sampleAnalysis 69.5 [], sampleAnalysis 40 [], sampleAnalysis 12 [],
       sampleAnalysis 90 []]) = 1
   \<and> totalSources (consolidateAnalyses sampleEngine ''q''
      [sampleAnalysis 70 [], sampleAnalysis 69.5 [], sampleAnalysis 40 [], sampleAnalysis 12 [],
       sampleAnalysis 90 []]) = 5"
  using tiers_partition [of "[sampleAnalysis 70 [], sampleAnalysis 69.5 [], sampleAnalysis 40 [],
                              sampleAnalysis 12 [], sampleAnalysis 90 []]"
                            "[70, 69.5, 40, 12, 90]" sampleEngine "''q''"]
  by (simp add: consolidateAnalyses_def sampleAnalysis_def isHigh_def isMedium_def isLow_def)

section \<open>Properties of the search\<close>

subsection \<open>A single search call\<close>

lemma searchDuckDuckGo_calls:
  "snd (searchDuckDuckGo W cfg q opt calls) = calls @ [(q, withDefault opt (maxResults cfg))]"
  by (simp add: searchDuckDuckGo_def Let_def)

text \<open>
  C7, as amended. \<open>searchDuckDuckGo\<close> returns a list whatever the provider does: a
  failed request and a page without results both give the empty list; and when
  \<open>maxResults\<close> (the option, or the configured default) is not negative, the list has
  at most \<open>maxResults\<close> hits.
\<close>

theorem searchDuckDuckGo_never_fails:
  "(respond W calls (q, withDefault opt (maxResults cfg)) = Inl e
      \<longrightarrow> fst (searchDuckDuckGo W cfg q opt calls) = [])
   \<and> (respond W calls (q, withDefault opt (maxResults cfg)) = Inr []
      \<longrightarrow> fst (searchDuckDuckGo W cfg q opt calls) = [])
   \<and> (0 \<le> withDefault opt (maxResults cfg)
      \<longrightarrow> int (length (fst (searchDuckDuckGo W cfg q opt calls))) \<le> withDefault opt (maxResults cfg))"
  by (auto simp: searchDuckDuckGo_def Let_def parseDuckDuckGoResults_def map_filter_simps
      sliceTo_def split: sum.split)

theorem searchDuckDuckGo_never_fails_witness:
  "respond (sampleWorld onePage noSite) [] (''down'', 3) = Inl (Error ''timeout'')
   \<and> fst (searchDuckDuckGo (sampleWorld onePage noSite) defaultConfig ''down'' (Some 3) []) = []
   \<and> respond (sampleWorld onePage noSite) [] (''nothing'', 3) = Inr []
   \<and> fst (searchDuckDuckGo (sampleWorld onePage noSite) defaultConfig ''nothing'' (Some 3) []) = []
   \<and> length (fst (searchDuckDuckGo (sampleWorld threePages noSite) defaultConfig ''solar'' (Some 2) [])) = 2
   \<and> length (fst (searchDuckDuckGo (sampleWorld threePages noSite) defaultConfig ''solar'' (Some 0) [])) = 0"
  using searchDuckDuckGo_never_fails
          [of "sampleWorld onePage noSite" "[]" "''down''" "Some 3" defaultConfig "Error ''timeout''"]
        searchDuckDuckGo_never_fails
          [of "sampleWorld onePage noSite" "[]" "''nothing''" "Some 3" defaultConfig "Error ''timeout''"]
        searchDuckDuckGo_never_fails
          [of "sampleWorld threePages noSite" "[]" "''solar''" "Some 0" defaultConfig "Error ''timeout''"]
  by (simp add: sampleWorld_def onePage_def threePages_def withDefault_def searchDuckDuckGo_def
      parseDuckDuckGoResults_def map_filter_simps parseResult_def sliceTo_def)

text \<open>
  C7 as stated fails on the cap for a negative budget, which nothing in the code
  rules out: \<open>slice(0, -1)\<close> drops the last hit and keeps the others, so of three
  hits two are returned, more than \<open>maxResults = -1\<close>.
\<close>

theorem searchDuckDuckGo_never_fails_counterexample:
  "length (parseDuckDuckGoResults (sampleWorld threePages noSite) (projr (threePages ''solar''))) = 3
   \<and> int (length (fst (searchDuckDuckGo (sampleWorld threePages noSite) defaultConfig ''solar''
                         (Some (- 1)) []))) = 2
   \<and> \<not> int (length (fst (searchDuckDuckGo (sampleWorld threePages noSite) defaultConfig ''solar''
                           (Some (- 1)) []))) \<le> - 1"
  by (simp add: sampleWorld_def threePages_def withDefault_def searchDuckDuckGo_def
      parseDuckDuckGoResults_def map_filter_simps parseResult_def sliceTo_def)

subsection \<open>De-duplication inside one search function\<close>

lemma dedupe_inv:
  "distinct (map h_url acc) \<Longrightarrow> h_url ` set acc \<subseteq> seen \<Longrightarrow>
   distinct (map h_url (fst (dedupe rs (acc, seen))))
   \<and> h_url ` set (fst (dedupe rs (acc, seen))) \<subseteq> snd (dedupe rs (acc, seen))"
proof (induction rs arbitrary: acc seen)
  case Nil
  then show ?case by simp
next
  case (Cons r rs)
  show ?case
  proof (cases "h_url r \<in> seen")
    case True
    with Cons show ?thesis by simp
  next
    case False
    have "distinct (map h_url (acc @ [r]))" using Cons.prems False by auto
    moreover have "h_url ` set (acc @ [r]) \<subseteq> insert (h_url r) seen" using Cons.prems by auto
    ultimately show ?thesis using Cons.IH False by simp
  qed
qed

lemma multiSearchLoop_inv:
  "distinct (map h_url acc) \<Longrightarrow> h_url ` set acc \<subseteq> seen \<Longrightarrow>
   distinct (map h_url (fst (multiSearchLoop W cfg terms opt (acc, seen) calls)))"
proof (induction terms arbitrary: acc seen calls)
  case Nil
  then show ?case by simp
next
  case (Cons t ts)
  obtain results calls' where s: "searchDuckDuckGo W cfg t opt calls = (results, calls')"
    by (cases "searchDuckDuckGo W cfg t opt calls")
  obtain acc' seen'
    where d: "dedupe (map (\<lambda>r. r\<lparr>h_searchTerm := Some t\<rparr>) results) (acc, seen) = (acc', seen')"
    by (cases "dedupe (map (\<lambda>r. r\<lparr>h_searchTerm := Some t\<rparr>) results) (acc, seen)")
  from dedupe_inv [OF Cons.prems, of "map (\<lambda>r. r\<lparr>h_searchTerm := Some t\<rparr>) results"] d
  have "distinct (map h_url acc')" "h_url ` set acc' \<subseteq> seen'" by simp_all
  from Cons.IH [OF this] show ?case by (simp add: s d)
qed

lemma multiSearch_distinct: "distinct (map h_url (fst (multiSearch W cfg terms opt calls)))"
  unfolding multiSearch_def by (rule multiSearchLoop_inv) simp_all

lemma searchWithDorks_distinct:
  "distinct (map h_url (fst (searchWithDorks W cfg b opt calls)))"
  using dedupe_inv [of "[]" "{}"] by (simp add: searchWithDorks_def split: prod.split)

text \<open>Without the advanced mode the merged list is the result of one \<open>multiSearch\<close>.\<close>

lemma searchResults_plain_distinct:
  "distinct (map h_url (fst (searchResults W cfg terms
      \<lparr>o_maxResults = m, o_useAdvancedSearch = Some False\<rparr> calls)))"
  by (simp add: searchResults_def withDefault_def multiSearch_distinct)

text \<open>
  C1 at the input that breaks it. With the advanced mode (the default) and the terms
  \<open>a\<close> and \<open>b\<close>, a provider that answers every query with the page
  \<open>https://example.org/article\<close> makes \<open>searchWithDorks\<close> return that hit for \<open>a\<close> and
  \<open>multiSearch\<close> return it again for \<open>b\<close>: each function removes its own
  duplicates, and \<open>performWebSearch\<close> appends the two lists as they are.
\<close>

theorem merged_hits_share_url:
  "map h_url (fst (searchResults (sampleWorld onePage noSite) defaultConfig [''a'', ''b''] noOptions []))
     = [''https://example.org/article'', ''https://example.org/article'']"
  by (simp add: searchResults_def noOptions_def withDefault_def searchWithDorks_def dorks_def
      render_def multiSearch_def searchDuckDuckGo_def sampleWorld_def onePage_def
      parseDuckDuckGoResults_def map_filter_simps parseResult_def normalizeUrl_def
      sampleParseURL_def defaultConfig_def ceilDiv_def sliceTo_def Let_def)

subsection \<open>The calls that a retrieval issues\<close>

lemma multiSearchLoop_calls:
  "snd (multiSearchLoop W cfg terms opt st calls)
   = calls @ map (\<lambda>t. (t, withDefault opt (maxResults cfg))) terms"
proof (induction terms arbitrary: st calls)
  case Nil
  then show ?case by (cases st) simp
next
  case (Cons t ts)
  obtain acc seen where st: "st = (acc, seen)" by (cases st)
  obtain results calls' where s: "searchDuckDuckGo W cfg t opt calls = (results, calls')"
    by (cases "searchDuckDuckGo W cfg t opt calls")
  then have c: "calls' = calls @ [(t, withDefault opt (maxResults cfg))]"
    using searchDuckDuckGo_calls [of W cfg t opt calls] by simp
  obtain acc' seen'
    where d: "dedupe (map (\<lambda>r. r\<lparr>h_searchTerm := Some t\<rparr>) results) (acc, seen) = (acc', seen')"
    by (cases "dedupe (map (\<lambda>r. r\<lparr>h_searchTerm := Some t\<rparr>) results) (acc, seen)")
  show ?case using Cons.IH [of "(acc', seen')" calls'] by (simp add: st s d c)
qed

lemma dorkLoop_calls:
  "snd (dorkLoop W cfg b ds acc calls)
   = calls @ map (\<lambda>d. (d, ceilDiv (maxResults cfg) (int (length (dorks b))))) ds"
proof (induction ds arbitrary: acc calls)
  case Nil
  then show ?case by simp
next
  case (Cons d ds)
  obtain results calls'
    where s: "searchDuckDuckGo W cfg d (Some (ceilDiv (maxResults cfg) (int (length (dorks b))))) calls
              = (results, calls')"
    by (cases "searchDuckDuckGo W cfg d (Some (ceilDiv (maxResults cfg) (int (length (dorks b))))) calls")
  then have c: "calls' = calls @ [(d, ceilDiv (maxResults cfg) (int (length (dorks b))))]"
    using searchDuckDuckGo_calls [of W cfg d "Some (ceilDiv (maxResults cfg) (int (length (dorks b))))" calls]
    by (simp add: withDefault_def)
  show ?case using Cons.IH [of _ calls'] by (simp add: s c)
qed

lemma length_dorks: "length (dorks b) = 7"
  by (simp add: dorks_def)

lemma searchWithDorks_calls:
  "snd (searchWithDorks W cfg b opt calls)
   = calls @ map (\<lambda>d. (d, ceilDiv (maxResults cfg) 7)) (dorks b)"
  by (simp add: searchWithDorks_def length_dorks case_prod_beta dorkLoop_calls)

lemma searchResults_advanced_calls:
  "snd (searchResults W cfg (t # ts) \<lparr>o_maxResults = Some m, o_useAdvancedSearch = Some True\<rparr> calls)
   = calls @ map (\<lambda>d. (d, ceilDiv (maxResults cfg) 7)) (dorks (Some t))
       @ map (\<lambda>t. (t, ceilDiv m 2)) ts"
  by (simp add: searchResults_def multiSearch_def withDefault_def case_prod_beta Let_def
      multiSearchLoop_calls searchWithDorks_calls)

text \<open>
  C2, as amended. With the advanced mode on and \<open>maxResults = 10\<close>, a retrieval over
  the terms \<open>t, ts\<close> issues exactly seven dork queries, the seven variants of the
  first term \<open>t\<close>, and after them one ordinary query for each remaining term, each
  with a budget of 5 results of its own.
\<close>

theorem advanced_search_calls:
  "length (dorks (Some t)) = 7
   \<and> take (length calls) (snd (searchResults W cfg (t # ts) advancedTen calls)) = calls
   \<and> map fst (take 7 (drop (length calls) (snd (searchResults W cfg (t # ts) advancedTen calls))))
       = dorks (Some t)
   \<and> drop (length calls + 7) (snd (searchResults W cfg (t # ts) advancedTen calls))
       = map (\<lambda>t. (t, 5)) ts"
  by (simp add: advancedTen_def searchResults_advanced_calls length_dorks ceilDiv_def comp_def)

text \<open>
  C2 as stated fails twice. With a configured budget of 10 the seven dork queries
  carry a budget of 2, not of \<open>ceil(5/7) = 1\<close>; and the two remaining terms \<open>y\<close>
  and \<open>z\<close> contribute three hits each, six together, not at most five.
\<close>

theorem advanced_search_calls_counterexample:
  "map snd (take 7 (snd (searchResults (sampleWorld threePages noSite) tenConfig
       [''x'', ''y'', ''z''] advancedTen []))) = [2, 2, 2, 2, 2, 2, 2]
   \<and> ceilDiv 5 7 = 1
   \<and> map h_searchTerm (fst (searchResults (sampleWorld threePages noSite) tenConfig
       [''x'', ''y'', ''z''] advancedTen []))
     = [Some ''y'', Some ''y'', Some ''y'', Some ''z'', Some ''z'', Some ''z'']"
  by (simp add: searchResults_def advancedTen_def tenConfig_def defaultConfig_def withDefault_def
      searchWithDorks_def dorks_def render_def multiSearch_def searchDuckDuckGo_def
      sampleWorld_def threePages_def ceilDiv_def sliceTo_def parseDuckDuckGoResults_def
      map_filter_simps parseResult_def normalizeUrl_def sampleParseURL_def Let_def)

section \<open>Properties of the scraping\<close>

subsection \<open>Content length\<close>

lemma extract_articlePage:
  "extractContent articlePage = ''Solar power is the conversion of energy from sunlight into electricity, either directly using photovoltaics or indirectly using concentrated solar power.''"
  by (simp add: articlePage_def longText_def extractContent_def pick_def cleanContent_def
      trim_def isSpace_def)

lemma length_articlePage: "length (extractContent articlePage) = 153"
  by (simp add: extract_articlePage)

lemma extract_stubPage: "extractContent stubPage = ''Too short''"
  by (simp add: stubPage_def extractContent_def pick_def cleanContent_def trim_def isSpace_def)

lemma allowed_example_org:
  "isAllowedDomain (sampleWorld pages site) defaultConfig (''https://example.org/'' @ path)"
  by (simp add: isAllowedDomain_def sampleWorld_def sampleParseURL_def defaultConfig_def
      patternTest_def toSym_def)

text \<open>
  C5. \<open>scrapePage\<close> returns a source only for a page that was fetched and whose
  extracted content is, after \<open>cleanContent\<close>, at least 100 characters long (this
  length is the \<open>contentLength\<close> of the source); for a fetched page with shorter
  content it returns \<open>null\<close>.
\<close>

theorem scrapePage_minimum_content:
  "(scrapePage W cfg urlInfo = Some s \<longrightarrow>
      (\<exists>pg. fetch W (h_url urlInfo) = Inr (Some pg) \<and> 100 \<le> length (extractContent pg)
            \<and> contentLength s = length (extractContent pg)))
   \<and> (fetch W (h_url urlInfo) = Inr (Some pg) \<and> length (extractContent pg) < 100 \<longrightarrow>
        scrapePage W cfg urlInfo = None)"
  by (auto simp: scrapePage_def Let_def split: if_splits sum.splits option.splits)

theorem scrapePage_minimum_content_witness:
  "map_option contentLength (scrapePage (sampleWorld onePage sampleSite) defaultConfig
       (sampleHit ''https://example.org/article'')) = Some 153
   \<and> fetch (sampleWorld onePage sampleSite) ''https://example.org/article'' = Inr (Some articlePage)
   \<and> length (extractContent articlePage) = 153
   \<and> fetch (sampleWorld onePage sampleSite) ''https://example.org/stub'' = Inr (Some stubPage)
   \<and> extractContent stubPage = ''Too short''
   \<and> scrapePage (sampleWorld onePage sampleSite) defaultConfig
       (sampleHit ''https://example.org/stub'') = None"
  using scrapePage_minimum_content
          [of "sampleWorld onePage sampleSite" defaultConfig "sampleHit ''https://example.org/article''"
              "the (scrapePage (sampleWorld onePage sampleSite) defaultConfig
                     (sampleHit ''https://example.org/article''))" articlePage]
        scrapePage_minimum_content
          [of "sampleWorld onePage sampleSite" defaultConfig "sampleHit ''https://example.org/stub''"
              undefined stubPage]
        allowed_example_org [of onePage sampleSite "''article''"]
        allowed_example_org [of onePage sampleSite "''stub''"]
  by (simp add: scrapePage_def Let_def sampleWorld_def sampleSite_def sampleHit_def
      sampleParseURL_def length_articlePage extract_stubPage)

subsection \<open>Blocked domains\<close>

lemma hd_replaceStars: "replaceStars cs \<noteq> [] \<Longrightarrow> hd (replaceStars cs) \<noteq> CHR ''*''"
  by (cases cs) auto

lemma regexParse_cons_plain:
  "s = [] \<or> hd s \<noteq> CHR ''*'' \<Longrightarrow> regexParse (c # s) = (toSym c, False) # regexParse s"
  by (cases s) auto

lemma regexParse_replaceStars:
  "regexParse (replaceStars p)
   = map (\<lambda>c. if c = CHR ''*'' then (Dot, True) else (toSym c, False)) p"
proof (induction p)
  case Nil
  then show ?case by simp
next
  case (Cons c cs)
  have h: "replaceStars cs = [] \<or> hd (replaceStars cs) \<noteq> CHR ''*''"
    using hd_replaceStars by blast
  show ?case
  proof (cases "c = CHR ''*''")
    case True
    then show ?thesis using Cons by (simp add: toSym_def)
  next
    case False
    then show ?thesis using Cons regexParse_cons_plain [OF h] by simp
  qed
qed

text \<open>An expression that accepts more characters symbol by symbol matches more texts.\<close>

definition weaker :: "sym \<times> bool \<Rightarrow> sym \<times> bool \<Rightarrow> bool" where
  "weaker x y \<longleftrightarrow> snd x = snd y \<and> (\<forall>c. symOk (fst x) c \<longrightarrow> symOk (fst y) c)"

lemma weaker_Cons:
  assumes "list_all2 weaker ((a, st) # r) r2"
  shows "\<exists>b r'. r2 = (b, st) # r' \<and> (\<forall>c. symOk a c \<longrightarrow> symOk b c) \<and> list_all2 weaker r r'"
proof -
  from assms obtain y r' where r2: "r2 = y # r'" and w: "weaker (a, st) y"
    and l: "list_all2 weaker r r'"
    by (auto simp: list_all2_Cons1)
  obtain b st' where y: "y = (b, st')" by (cases y)
  from w y have "st' = st" "\<forall>c. symOk a c \<longrightarrow> symOk b c" by (simp_all add: weaker_def)
  with r2 y l show ?thesis by blast
qed

lemma matchHere_mono:
  "matchHere r1 s \<Longrightarrow> list_all2 weaker r1 r2 \<Longrightarrow> matchHere r2 s"
proof (induction r1 s arbitrary: r2 rule: matchHere.induct)
  case (1 s)
  then show ?case by simp
next
  case (2 a r)
  then show ?case by simp
next
  case (3 a r c cs)
  from 3(3) obtain b r' where r2: "r2 = (b, False) # r'"
    and w: "\<forall>c. symOk a c \<longrightarrow> symOk b c" and l: "list_all2 weaker r r'"
    using weaker_Cons by blast
  from 3(2) have "symOk a c" "matchHere r cs" by simp_all
  with 3(1) [OF _ l] w show ?case by (simp add: r2)
next
  case (4 a r)
  from 4(3) obtain b r' where r2: "r2 = (b, True) # r'" and l: "list_all2 weaker r r'"
    using weaker_Cons by blast
  from 4(2) have "matchHere r []" by simp
  with 4(1) [OF _ l] show ?case by (simp add: r2)
next
  case (5 a r c cs)
  from 5(4) obtain b r' where r2: "r2 = (b, True) # r'"
    and w: "\<forall>c. symOk a c \<longrightarrow> symOk b c" and l: "list_all2 weaker r r'"
    using weaker_Cons by blast
  from 5(3) consider "matchHere r (c # cs)" | "symOk a c" "matchHere ((a, True) # r) cs"
    by auto
  then show ?case
  proof cases
    case 1
    with 5(1) [OF _ l] show ?thesis by (simp add: r2)
  next
    case 2
    from 5(2) [OF 2(2) 5(4)] have "matchHere r2 cs" .
    with 2(1) w show ?thesis by (simp add: r2)
  qed
qed

lemma regexSearch_mono:
  "regexSearch r1 s \<Longrightarrow> list_all2 weaker r1 r2 \<Longrightarrow> regexSearch r2 s"
  by (induction s) (auto dest: matchHere_mono)

lemma glob_weaker:
  "list_all2 weaker (map (\<lambda>c. if c = CHR ''*'' then (Dot, True) else (Chr c, False)) p)
                    (map (\<lambda>c. if c = CHR ''*'' then (Dot, True) else (toSym c, False)) p)"
  by (induction p) (auto simp: weaker_def toSym_def)

text \<open>A host that the glob matches passes the test of the code.\<close>

lemma glob_patternTest: "globMatches p host \<Longrightarrow> patternTest host p"
  using regexSearch_mono [OF _ glob_weaker]
  by (auto simp: globMatches_def patternTest_def regexParse_replaceStars)

lemma blocked_not_allowed:
  "parseURL W u = Some obj \<Longrightarrow> p \<in> set (blockedDomains cfg) \<Longrightarrow> patternTest (hostname obj) p
   \<Longrightarrow> \<not> isAllowedDomain W cfg u"
  by (auto simp: isAllowedDomain_def list_ex_iff)

lemma scrapePage_blocked:
  "parseURL W (h_url h) = Some obj \<Longrightarrow> p \<in> set (blockedDomains cfg)
   \<Longrightarrow> patternTest (hostname obj) p \<Longrightarrow> scrapePage (W\<lparr>fetch := f\<rparr>) cfg h = None"
  using blocked_not_allowed [of "W\<lparr>fetch := f\<rparr>" "h_url h" obj p cfg]
  by (simp add: scrapePage_def)

subsection \<open>Chunks\<close>

lemma chunkLoop_returns:
  "0 < n \<Longrightarrow>
   \<exists>chunks. chunkLoop xs n i acc = Some chunks \<and> concat chunks = concat acc @ drop i xs"
proof (induction "length xs - i" arbitrary: i acc rule: less_induct)
  case less
  show ?case
  proof (cases "i < length xs")
    case True
    then have "length xs - (i + n) < length xs - i" using less.prems by simp
    from less.hyps [OF this less.prems, of "acc @ [take n (drop i xs)]"]
    obtain chunks where c: "chunkLoop xs n (i + n) (acc @ [take n (drop i xs)]) = Some chunks"
      and d: "concat chunks = concat (acc @ [take n (drop i xs)]) @ drop (i + n) xs" by blast
    have "take n (drop i xs) @ drop (i + n) xs = drop i xs"
      by (metis add.commute append_take_drop_id drop_drop)
    with c d True show ?thesis by (subst chunkLoop.simps) simp
  next
    case False
    then show ?thesis by (subst chunkLoop.simps) simp
  qed
qed

lemma map_filter_app: "List.map_filter f (xs @ ys) = List.map_filter f xs @ List.map_filter f ys"
  by (simp add: List.map_filter_def)

lemma map_filter_concat: "concat (map (List.map_filter f) xss) = List.map_filter f (concat xss)"
  by (induction xss) (simp_all add: map_filter_simps map_filter_app)

text \<open>With a positive chunk size the scrape ends, and the chunks do not show in its result.\<close>

lemma scrapeContent_returns:
  "0 < maxConcurrentScrapes cfg \<Longrightarrow>
   scrapeContent W cfg hits = Some (List.map_filter (scrapePage W cfg) hits)"
  using chunkLoop_returns [of "maxConcurrentScrapes cfg" hits 0 "[]"]
  by (auto simp: scrapeContent_def chunkArray_def map_filter_concat)

lemma map_filter_skip:
  "f h = None \<Longrightarrow> List.map_filter f (xs @ h # ys) = List.map_filter f (xs @ ys)"
  by (simp add: map_filter_app map_filter_simps)

lemma set_map_filter: "s \<in> set (List.map_filter f xs) \<longleftrightarrow> (\<exists>x \<in> set xs. f x = Some s)"
  by (induction xs) (auto simp: map_filter_simps split: option.splits)

lemma scrapePage_url: "scrapePage W cfg h = Some s \<Longrightarrow> url s = h_url h"
  by (auto simp: scrapePage_def Let_def split: if_splits sum.splits option.splits)

subsection \<open>A blocked hit leaves no trace\<close>

text \<open>
  C9. Let the host of a hit's URL match a configured blocked pattern: it contains the
  pattern, or, for a pattern with a star (written without other operators of the
  expression syntax), the glob matches in it. Then \<open>scrapePage\<close> returns \<open>null\<close>
  for the hit whatever a GET of the page would answer, the scrape of a hit list with
  the hit in it equals the scrape of the list without it, no source carries the
  hit's URL, and the statistics are those of the list without the hit.
\<close>

theorem blocked_hit_excluded:
  assumes "parseURL W (h_url h) = Some obj"
    and "p \<in> set (blockedDomains cfg)"
    and "globMatches p (hostname obj)"
    and "CHR ''*'' \<in> set p \<longrightarrow> simplePattern p"
    and "0 < maxConcurrentScrapes cfg"
  shows "scrapePage (W\<lparr>fetch := f\<rparr>) cfg h = None
       \<and> scrapeContent W cfg (xs @ h # ys) = scrapeContent W cfg (xs @ ys)
       \<and> (\<forall>srcs. scrapeContent W cfg (xs @ h # ys) = Some srcs \<longrightarrow> h_url h \<notin> url ` set srcs)
       \<and> map_option (getSearchStats W) (scrapeContent W cfg (xs @ h # ys))
           = map_option (getSearchStats W) (scrapeContent W cfg (xs @ ys))"
proof -
  have t: "patternTest (hostname obj) p" using assms(3) by (rule glob_patternTest)
  have none: "scrapePage (W\<lparr>fetch := g\<rparr>) cfg h' = None" if "h_url h' = h_url h" for g h'
    using scrapePage_blocked [of W h' obj p cfg g] assms(1,2) t that by simp
  from none [of h "fetch W"] have n: "scrapePage W cfg h = None" by simp
  have eq: "scrapeContent W cfg (xs @ h # ys) = scrapeContent W cfg (xs @ ys)"
    using assms(5) n by (simp add: scrapeContent_returns map_filter_skip)
  have "h_url h \<notin> url ` set srcs" if s: "scrapeContent W cfg (xs @ h # ys) = Some srcs" for srcs
  proof
    assume "h_url h \<in> url ` set srcs"
    then obtain s where "s \<in> set srcs" "url s = h_url h" by auto
    moreover from s assms(5) have "srcs = List.map_filter (scrapePage W cfg) (xs @ h # ys)"
      by (simp add: scrapeContent_returns)
    ultimately obtain h' where "scrapePage W cfg h' = Some s" "url s = h_url h"
      by (auto simp: set_map_filter)
    moreover from this have "h_url h' = h_url h" by (simp add: scrapePage_url)
    ultimately show False using none [of h' "fetch W"] by simp
  qed
  with none [of h f] eq show ?thesis by simp
qed

theorem blocked_hit_excluded_witness:
  "parseURL (sampleWorld onePage sampleSite) ''http://192.168.0.7/admin''
     = Some \<lparr> href = ''http://192.168.0.7/admin'', hostname = ''192.168.0.7'' \<rparr>
   \<and> globMatches ''192.168.*'' ''192.168.0.7''
   \<and> fetch (sampleWorld onePage sampleSite) ''http://192.168.0.7/admin'' = Inr (Some articlePage)
   \<and> scrapePage (sampleWorld onePage sampleSite) defaultConfig
        (sampleHit ''http://192.168.0.7/admin'') = None
   \<and> scrapeContent (sampleWorld onePage sampleSite) defaultConfig
        [sampleHit ''https://example.org/article'', sampleHit ''http://192.168.0.7/admin'']
     = scrapeContent (sampleWorld onePage sampleSite) defaultConfig
        [sampleHit ''https://example.org/article'']"
  using blocked_hit_excluded
          [of "sampleWorld onePage sampleSite" "sampleHit ''http://192.168.0.7/admin''"
              "\<lparr> href = ''http://192.168.0.7/admin'', hostname = ''192.168.0.7'' \<rparr>"
              "''192.168.*''" defaultConfig sampleSite
              "[sampleHit ''https://example.org/article'']" "[]"]
  by (simp add: sampleWorld_def sampleParseURL_def sampleHit_def sampleSite_def defaultConfig_def
      globMatches_def simplePattern_def)

section \<open>Properties of the source analysis\<close>

lemma finishSource_events: "snd (snd (finishSource cfg sid src a emb db evs)) = evs"
  by (simp add: finishSource_def Let_def split: option.split sum.split)

lemma finishSource_cache:
  "embeddings_cache (fst (snd (finishSource cfg sid src a emb db evs))) = embeddings_cache db"
  by (auto simp: finishSource_def Let_def saveWebSource_def
      split: option.split sum.split dbFault.splits)

lemma finishSource_result:
  "fst (finishSource cfg sid src a emb db evs) = Some x \<Longrightarrow>
   a_embedding x = map_option (take 10) emb"
  by (auto simp: finishSource_def Let_def split: option.splits sum.splits)

lemma finishSource_saved:
  "fst (finishSource cfg (Some s) src a emb db evs) = Some x \<Longrightarrow>
   map ws_embedding (web_sources (fst (snd (finishSource cfg (Some s) src a emb db evs))))
   = map ws_embedding (web_sources db) @ [emb]"
  by (auto simp: finishSource_def Let_def saveWebSource_def
      split: option.splits sum.splits dbFault.splits)

lemma no_gate_no_events:
  "\<not> (gen \<and> num_gt (relevance_score (analyzeWebContent L (content src) q)) 30) \<Longrightarrow>
   snd (snd (analyzeSingleSource L cfg q src gen sid db)) = []"
  by (auto simp: analyzeSingleSource_def Let_def finishSource_events)

lemma events_shape:
  "ev \<in> set (snd (snd (analyzeSingleSource L cfg q src gen sid db))) \<Longrightarrow>
   ev = CacheLookup (md5 L (contentForEmbedding src)) \<or> ev = EmbedCall (contentForEmbedding src)"
  by (auto simp: analyzeSingleSource_def Let_def finishSource_events
      split: if_splits sum.splits option.splits)

lemma cache_hit:
  assumes "gen" "num_gt (relevance_score (analyzeWebContent L (content src) q)) 30"
    and "getCachedEmbedding db (md5 L (contentForEmbedding src)) = Inr (Some row)"
    and "c_embedding row = Some v"
  shows "analyzeSingleSource L cfg q src gen sid db
         = finishSource cfg sid src (analyzeWebContent L (content src) q) (Some v) db
             [CacheLookup (md5 L (contentForEmbedding src))]"
  using assms by (simp add: analyzeSingleSource_def Let_def)

text \<open>
  C8, as amended. In \<open>analyzeSingleSource\<close> the cache is consulted and the embedding
  model is called only if embeddings are requested and the relevance score of the
  analysis is greater than 30. The key of every look-up is the digest of the text
  made of the title, two line feeds and the content, cut to its first 8000
  characters (\<open>contentForEmbedding\<close>), and that text is what the model is asked to
  embed. When the look-up returns a row with a vector, the model is not called, the
  cache is left as it is, and the vector of the row is the one the result shows (its
  first ten components) and the one saved with the source.
\<close>

theorem embedding_gate_and_cache:
  "(\<not> (gen \<and> num_gt (relevance_score (analyzeWebContent L (content src) q)) 30) \<longrightarrow>
      snd (snd (analyzeSingleSource L cfg q src gen sid db)) = [])
   \<and> (\<forall>ev \<in> set (snd (snd (analyzeSingleSource L cfg q src gen sid db))).
         ev = CacheLookup (md5 L (take 8000 (title src @ [CHR 0x0A, CHR 0x0A] @ content src)))
         \<or> ev = EmbedCall (take 8000 (title src @ [CHR 0x0A, CHR 0x0A] @ content src)))
   \<and> (gen \<and> num_gt (relevance_score (analyzeWebContent L (content src) q)) 30
       \<and> getCachedEmbedding db (md5 L (contentForEmbedding src)) = Inr (Some row)
       \<and> c_embedding row = Some v \<longrightarrow>
         snd (snd (analyzeSingleSource L cfg q src gen sid db))
           = [CacheLookup (md5 L (contentForEmbedding src))]
         \<and> embeddings_cache (fst (snd (analyzeSingleSource L cfg q src gen sid db)))
             = embeddings_cache db
         \<and> (\<forall>x. fst (analyzeSingleSource L cfg q src gen sid db) = Some x \<longrightarrow>
               a_embedding x = Some (take 10 v)
               \<and> (\<forall>s. sid = Some s \<longrightarrow>
                     map ws_embedding (web_sources (fst (snd (analyzeSingleSource L cfg q src gen sid db))))
                     = map ws_embedding (web_sources db) @ [Some v])))"
proof (intro conjI impI)
  show "snd (snd (analyzeSingleSource L cfg q src gen sid db)) = []"
    if "\<not> (gen \<and> num_gt (relevance_score (analyzeWebContent L (content src) q)) 30)"
    using that by (rule no_gate_no_events)
  show "\<forall>ev \<in> set (snd (snd (analyzeSingleSource L cfg q src gen sid db))).
          ev = CacheLookup (md5 L (take 8000 (title src @ [CHR 0x0A, CHR 0x0A] @ content src)))
          \<or> ev = EmbedCall (take 8000 (title src @ [CHR 0x0A, CHR 0x0A] @ content src))"
    using events_shape [of _ L cfg q src gen sid db] by (auto simp: contentForEmbedding_def)
next
  assume h: "gen \<and> num_gt (relevance_score (analyzeWebContent L (content src) q)) 30
       \<and> getCachedEmbedding db (md5 L (contentForEmbedding src)) = Inr (Some row)
       \<and> c_embedding row = Some v"
  then have eq: "analyzeSingleSource L cfg q src gen sid db
         = finishSource cfg sid src (analyzeWebContent L (content src) q) (Some v) db
             [CacheLookup (md5 L (contentForEmbedding src))]"
    by (simp add: cache_hit)
  show "snd (snd (analyzeSingleSource L cfg q src gen sid db))
           = [CacheLookup (md5 L (contentForEmbedding src))]"
    by (simp add: eq finishSource_events)
  show "embeddings_cache (fst (snd (analyzeSingleSource L cfg q src gen sid db)))
             = embeddings_cache db"
    by (simp add: eq finishSource_cache)
  show "\<forall>x. fst (analyzeSingleSource L cfg q src gen sid db) = Some x \<longrightarrow>
               a_embedding x = Some (take 10 v)
               \<and> (\<forall>s. sid = Some s \<longrightarrow>
                     map ws_embedding (web_sources (fst (snd (analyzeSingleSource L cfg q src gen sid db))))
                     = map ws_embedding (web_sources db) @ [Some v])"
    using finishSource_result finishSource_saved unfolding eq by fastforce
qed

lemma sample_analysis:
  "analyzeWebContent sampleLLM c q
   = \<lparr> relevance_score = Num 80, credibility_score = Undefined, summary = [],
       key_points = None, insights = None, topics = None \<rparr>"
  by (simp add: analyzeWebContent_def generateResponse_def sampleLLM_def sampleAnswers_def
      analysisJson_def qq_def jsonMatch_def sampleParseAnalysis_def)

lemma sample_md5: "md5 sampleLLM s = sampleDigest s"
  by (simp add: sampleLLM_def)

lemma sample_embedding: "generateEmbedding sampleLLM t = Inr (Some [1, 2, 3])"
  by (simp add: generateEmbedding_def sampleLLM_def)

theorem embedding_gate_and_cache_witness:
  "num_gt (relevance_score (analyzeWebContent sampleLLM (content shortSource) ''q'')) 30
   \<and> getCachedEmbedding warmDatabase (md5 sampleLLM (contentForEmbedding shortSource))
       = Inr (Some \<lparr> c_preview = ''A'', c_embedding = Some [7, 8, 9], c_model = ''nomic-embed-text'' \<rparr>)
   \<and> snd (snd (analyzeSingleSource sampleLLM defaultConfig ''q'' shortSource True (Some 0) warmDatabase))
       = [CacheLookup (sampleDigest (''A'' @ [CHR 0x0A, CHR 0x0A] @ ''text''))]
   \<and> snd (snd (analyzeSingleSource sampleLLM defaultConfig ''q'' shortSource False (Some 0) warmDatabase))
       = []"
  using embedding_gate_and_cache
          [of True sampleLLM shortSource "''q''" defaultConfig "Some 0" warmDatabase
              "\<lparr> c_preview = ''A'', c_embedding = Some [7, 8, 9], c_model = ''nomic-embed-text'' \<rparr>"
              "[7, 8, 9]"]
        embedding_gate_and_cache
          [of False sampleLLM shortSource "''q''" defaultConfig "Some 0" warmDatabase
              "\<lparr> c_preview = ''A'', c_embedding = Some [7, 8, 9], c_model = ''nomic-embed-text'' \<rparr>"
              "[7, 8, 9]"]
  by (simp add: sample_analysis contentForEmbedding_def shortSource_def sample_md5
      getCachedEmbedding_def warmDatabase_def emptyDatabase_def)

text \<open>
  C8 as stated fails on the key: for the title \<open>A\<close> and the content \<open>text\<close> the text
  that is hashed and looked up is \<open>A\<close>, two line feeds, \<open>text\<close>, not \<open>Atext\<close>.
\<close>

theorem embedding_gate_and_cache_counterexample:
  "snd (snd (analyzeSingleSource sampleLLM defaultConfig ''q'' shortSource True None emptyDatabase))
     = [CacheLookup (sampleDigest (''A'' @ [CHR 0x0A, CHR 0x0A] @ ''text'')),
        EmbedCall (''A'' @ [CHR 0x0A, CHR 0x0A] @ ''text'')]
   \<and> take 8000 (title shortSource @ content shortSource) = ''Atext''
   \<and> sampleDigest (''A'' @ [CHR 0x0A, CHR 0x0A] @ ''text'') \<noteq> sampleDigest ''Atext''"
  by (simp add: analyzeSingleSource_def Let_def sample_analysis contentForEmbedding_def
      sample_md5 sample_embedding finishSource_events getCachedEmbedding_def emptyDatabase_def
      shortSource_def sampleDigest_def)

section \<open>Properties of a run\<close>

subsection \<open>The steps return\<close>

lemma performWebSearch_returns:
  "0 < maxConcurrentScrapes cfg \<Longrightarrow>
   \<exists>web calls. performWebSearch W cfg terms opts c = Some (web, calls)"
  by (simp add: performWebSearch_def scrapeContent_returns case_prod_beta)

lemma finishSource_sessions:
  "search_sessions (fst (snd (finishSource cfg sid src a emb db evs))) = search_sessions db
   \<and> fault (fst (snd (finishSource cfg sid src a emb db evs))) = fault db"
  by (auto simp: finishSource_def Let_def saveWebSource_def
      split: option.split sum.split dbFault.splits)

lemma cacheEmbedding_sessions:
  "cacheEmbedding db h p v m = Inr db' \<Longrightarrow>
   search_sessions db' = search_sessions db \<and> fault db' = fault db"
  by (auto simp: cacheEmbedding_def split: dbFault.splits option.splits)

lemma analyzeSingleSource_sessions:
  "search_sessions (fst (snd (analyzeSingleSource L cfg q src gen sid db))) = search_sessions db
   \<and> fault (fst (snd (analyzeSingleSource L cfg q src gen sid db))) = fault db"
  by (auto simp: analyzeSingleSource_def Let_def finishSource_sessions
      dest: cacheEmbedding_sessions split: sum.splits option.splits)

lemma analyzeBatch_sessions:
  "search_sessions (snd (analyzeBatch L cfg q gen sid srcs db)) = search_sessions db
   \<and> fault (snd (analyzeBatch L cfg q gen sid srcs db)) = fault db"
proof (induction srcs arbitrary: db)
  case Nil
  then show ?case by simp
next
  case (Cons src srcs)
  show ?case
    using Cons [of "fst (snd (analyzeSingleSource L cfg q src gen sid db))"]
          analyzeSingleSource_sessions [of L cfg q src gen sid db]
    by (simp add: case_prod_beta Let_def)
qed

lemma analyzeBatches_sessions:
  "search_sessions (snd (analyzeBatches L cfg q gen sid batches db)) = search_sessions db
   \<and> fault (snd (analyzeBatches L cfg q gen sid batches db)) = fault db"
proof (induction batches arbitrary: db)
  case Nil
  then show ?case by simp
next
  case (Cons b bs)
  show ?case
    using Cons [of "snd (analyzeBatch L cfg q gen sid b db)"]
          analyzeBatch_sessions [of L cfg q gen sid b db]
    by (simp add: case_prod_beta Let_def)
qed

text \<open>
  With a positive batch size the analysis returns; it leaves the sessions and the
  faults of the store as they are.
\<close>

lemma analyzeContent_returns:
  assumes "0 < parallelProcessingLimit cfg"
  shows "\<exists>a db1. analyzeContent engine L cfg q web gen sid db = Some (Inr a, db1)
           \<and> search_sessions db1 = search_sessions db \<and> fault db1 = fault db"
proof -
  from chunkLoop_returns [OF assms, of "w_sources web" 0 "[]"]
  obtain chunks where "chunkArray (w_sources web) (parallelProcessingLimit cfg) = Some chunks"
    by (auto simp: chunkArray_def)
  then show ?thesis
    using analyzeBatches_sessions [of L cfg q gen sid chunks db]
    by (simp add: analyzeContent_def case_prod_beta Let_def)
qed

subsection \<open>The term expansion\<close>

lemma expansion_throws:
  "post_generate L (ExpandTerms q) = Inl e \<or>
   (post_generate L (ExpandTerms q) = Inr r \<and> jsonMatch r = Some b \<and> parseTerms L b = None)
   \<Longrightarrow> generateSearchTerms L q = fallbackTerms q"
  by (auto simp: generateSearchTerms_def generateResponse_def)

lemma remdups_snoc: "remdups (ys @ [x]) = remdups (removeAll x ys) @ [x]"
  by (induction ys) auto

lemma removeAll_rev: "removeAll x (rev xs) = rev (removeAll x xs)"
  by (induction xs) auto

lemma firstSeen_Cons: "firstSeen (x # xs) = x # firstSeen (removeAll x xs)"
  by (simp add: firstSeen_def remdups_snoc removeAll_rev)

lemma removeAll_filter: "removeAll x (filter P xs) = filter (\<lambda>t. t \<noteq> x \<and> P t) xs"
  by (induction xs) auto

lemma expansion_without_block:
  assumes "post_generate L (ExpandTerms q) = Inr r" "jsonMatch r = None"
  shows "generateSearchTerms L q
         = \<lparr> original_query = Some q,
             search_terms = Some (q # take 9 (firstSeen
                (filter (\<lambda>t. t \<noteq> q \<and> 2 < length t \<and> length t < 50) (map trim (quoted r))))),
             categories = Some [''geral''] \<rparr>"
  using assms
  by (simp add: generateSearchTerms_def generateResponse_def extractSearchTermsFallback_def
      firstSeen_Cons take_Cons' removeAll_filter)

subsection \<open>The end of a run\<close>

lemma failRun_raises: "\<exists>err db'. failRun session e db = (Inl err, db')"
  by (auto simp: failRun_def split: option.split sum.split prod.split)

lemma failRun_marks:
  assumes "fault db (UpdateSession sid ''error'') = Works" "sid < length (search_sessions db)"
  shows "\<exists>db'. failRun (Some (sid, row)) e db = (Inl e, db')
           \<and> sr_status (search_sessions db' ! sid) = ''error''
           \<and> md_error (sr_metadata (search_sessions db' ! sid)) = Some (message e)"
  using assms by (simp add: failRun_def updateSearchSession_def)

lemma run_to_report_failure:
  assumes "withDefault (saveToDatabase options) True"
    and "createSearchSession db q \<lparr> md_options = options, md_sourcesFound = None,
            md_reportGenerated = None, md_error = None \<rparr> = (Inr (sid, row), db0)"
    and "search_terms (generateSearchTerms L q) = Some terms"
    and "performWebSearch W cfg terms
           \<lparr> o_maxResults = Some (withDefault (maxSources options) (maxResults cfg)),
             o_useAdvancedSearch = Some (withDefault (useAdvancedSearch options) True) \<rparr> []
         = Some (web, calls)"
    and "analyze q web (withDefault (generateEmbeddings options) True) (Some sid) db0
         = Some (Inr a, db1)"
    and "generateFinalReport L q a = Inl err"
  shows "performDeepSearch analyze L W cfg q options db = Some (failRun (Some (sid, row)) err db1)"
  using assms by (simp add: performDeepSearch_def afterTerms_def generateReport_def)

lemma report_call_message:
  "post_generate L (FinalReport q a) = Inl e \<Longrightarrow>
   generateFinalReport L q a
   = Inl (Error (''Erro ao gerar relat'' @ [CHR 0xF3] @ ''rio: Erro ao gerar resposta: '' @ message e))"
  by (simp add: generateFinalReport_def generateResponse_def)

lemma created_row:
  "createSearchSession db q md = (Inr (sid, row), db0) \<Longrightarrow>
   sid = length (search_sessions db) \<and> sr_metadata row = md
   \<and> search_sessions db0 = search_sessions db @ [row] \<and> fault db0 = fault db"
  by (auto simp: createSearchSession_def Let_def split: dbFault.splits)

text \<open>
  C4. Take a run with a session: the session was created, the search terms are
  there, the web search and the analysis returned, and the report call of the model
  service fails with an error. Then \<open>performDeepSearch\<close> raises an error and returns
  no result. When the store carries out the update of the \<open>catch\<close>, the error raised
  is the error of the report call, the status of the session is \<open>error\<close> and the
  \<open>error\<close> of its metadata is the message of that error.
\<close>

theorem report_failure_marks_session:
  assumes "withDefault (saveToDatabase options) True"
    and "createSearchSession db q \<lparr> md_options = options, md_sourcesFound = None,
            md_reportGenerated = None, md_error = None \<rparr> = (Inr (sid, row), db0)"
    and "search_terms (generateSearchTerms L q) = Some terms"
    and "performWebSearch W cfg terms
           \<lparr> o_maxResults = Some (withDefault (maxSources options) (maxResults cfg)),
             o_useAdvancedSearch = Some (withDefault (useAdvancedSearch options) True) \<rparr> []
         = Some (web, calls)"
    and "analyze q web (withDefault (generateEmbeddings options) True) (Some sid) db0
         = Some (Inr a, db1)"
    and "generateFinalReport L q a = Inl err"
  shows "(\<exists>e' db'. performDeepSearch analyze L W cfg q options db = Some (Inl e', db'))
       \<and> (fault db1 (UpdateSession sid ''error'') = Works \<and> sid < length (search_sessions db1) \<longrightarrow>
            (\<exists>db'. performDeepSearch analyze L W cfg q options db = Some (Inl err, db')
                  \<and> sr_status (search_sessions db' ! sid) = ''error''
                  \<and> md_error (sr_metadata (search_sessions db' ! sid)) = Some (message err)))"
proof -
  have run: "performDeepSearch analyze L W cfg q options db = Some (failRun (Some (sid, row)) err db1)"
    using assms by (rule run_to_report_failure)
  show ?thesis
    using failRun_raises [of "Some (sid, row)" err db1] failRun_marks [of db1 sid row err]
    by (auto simp: run)
qed

theorem report_failure_marks_session_witness:
  "map_option fst (performDeepSearch (analyzeContent sampleEngine sampleLLM defaultConfig) sampleLLM
       (sampleWorld onePage sampleSite) defaultConfig ''doomed'' plainOptions emptyDatabase)
     = Some (Inl (Error (''Erro ao gerar relat'' @ [CHR 0xF3]
                          @ ''rio: Erro ao gerar resposta: model crashed'')))
   \<and> map_option (\<lambda>r. sr_status (search_sessions (snd r) ! 0))
       (performDeepSearch (analyzeContent sampleEngine sampleLLM defaultConfig) sampleLLM
          (sampleWorld onePage sampleSite) defaultConfig ''doomed'' plainOptions emptyDatabase)
     = Some ''error''
   \<and> map_option (\<lambda>r. md_error (sr_metadata (search_sessions (snd r) ! 0)))
       (performDeepSearch (analyzeContent sampleEngine sampleLLM defaultConfig) sampleLLM
          (sampleWorld onePage sampleSite) defaultConfig ''doomed'' plainOptions emptyDatabase)
     = Some (Some (''Erro ao gerar relat'' @ [CHR 0xF3]
                    @ ''rio: Erro ao gerar resposta: model crashed''))"
proof -
  let ?W = "sampleWorld onePage sampleSite"
  let ?md = "\<lparr> md_options = plainOptions, md_sourcesFound = None, md_reportGenerated = None,
              md_error = None \<rparr>"
  let ?row = "\<lparr> sr_query = ''doomed'', sr_status = ''pending'', sr_metadata = ?md \<rparr>"
  let ?db0 = "emptyDatabase\<lparr>search_sessions := search_sessions emptyDatabase @ [?row]\<rparr>"
  let ?err = "Error (''Erro ao gerar relat'' @ [CHR 0xF3] @ ''rio: Erro ao gerar resposta: model crashed'')"
  have save: "withDefault (saveToDatabase plainOptions) True"
    by (simp add: plainOptions_def withDefault_def)
  have scr: "0 < maxConcurrentScrapes defaultConfig" and par: "0 < parallelProcessingLimit defaultConfig"
    by (simp_all add: defaultConfig_def)
  have created: "createSearchSession emptyDatabase ''doomed'' ?md = (Inr (0, ?row), ?db0)"
    by (simp add: createSearchSession_def emptyDatabase_def Let_def)
  have terms: "search_terms (generateSearchTerms sampleLLM ''doomed'') = Some [''solar'']"
    by (simp add: generateSearchTerms_def generateResponse_def sampleLLM_def sampleAnswers_def
        termsJson_def qq_def jsonMatch_def sampleParseTerms_def)
  obtain web calls where web: "performWebSearch ?W defaultConfig [''solar'']
           \<lparr> o_maxResults = Some (withDefault (maxSources plainOptions) (maxResults defaultConfig)),
             o_useAdvancedSearch = Some (withDefault (useAdvancedSearch plainOptions) True) \<rparr> []
         = Some (web, calls)"
    using performWebSearch_returns [OF scr, of ?W] by blast
  obtain a db1 where an: "analyzeContent sampleEngine sampleLLM defaultConfig ''doomed'' web
         (withDefault (generateEmbeddings plainOptions) True) (Some 0) ?db0 = Some (Inr a, db1)"
    and keep: "search_sessions db1 = search_sessions ?db0" "fault db1 = fault ?db0"
    using analyzeContent_returns [OF par, of sampleEngine sampleLLM "''doomed''" web _ "Some 0" ?db0]
    by blast
  have rep: "generateFinalReport sampleLLM ''doomed'' a = Inl ?err"
    by (simp add: generateFinalReport_def generateResponse_def sampleLLM_def sampleAnswers_def)
  have ok: "fault db1 (UpdateSession 0 ''error'') = Works \<and> 0 < length (search_sessions db1)"
    by (simp add: keep emptyDatabase_def)
  from report_failure_marks_session
         [where analyze = "analyzeContent sampleEngine sampleLLM defaultConfig", OF save created terms web an rep] ok
  obtain db' where
    "performDeepSearch (analyzeContent sampleEngine sampleLLM defaultConfig) sampleLLM ?W defaultConfig
       ''doomed'' plainOptions emptyDatabase = Some (Inl ?err, db')"
    "sr_status (search_sessions db' ! 0) = ''error''"
    "md_error (sr_metadata (search_sessions db' ! 0)) = Some (message ?err)"
    by blast
  then show ?thesis by simp
qed

subsection \<open>A failed term expansion\<close>

lemma run_completes:
  assumes "withDefault (saveToDatabase options) True"
    and "createSearchSession db q \<lparr> md_options = options, md_sourcesFound = None,
            md_reportGenerated = None, md_error = None \<rparr> = (Inr (sid, row), db0)"
    and "generateSearchTerms L q = d" "search_terms d = Some terms"
    and "performWebSearch W cfg terms
           \<lparr> o_maxResults = Some (withDefault (maxSources options) (maxResults cfg)),
             o_useAdvancedSearch = Some (withDefault (useAdvancedSearch options) True) \<rparr> []
         = Some (web, calls)"
    and "analyze q web (withDefault (generateEmbeddings options) True) (Some sid) db0
         = Some (Inr a, db1)"
    and "generateReport L q a (Some sid) db1 = (Inr rep, db2)"
    and "fault db2 (UpdateSession sid ''completed'') = Works" "sid < length (search_sessions db2)"
  shows "\<exists>db3. performDeepSearch analyze L W cfg q options db
                 = Some (Inr \<lparr> dr_sessionId = Some sid, dr_query = q, dr_searchTerms = d,
                               dr_webResults = web, dr_analysis = a, dr_report = rep \<rparr>, db3)
               \<and> sr_status (search_sessions db3 ! sid) = ''completed''
               \<and> md_error (sr_metadata (search_sessions db3 ! sid)) = None"
  using assms created_row [OF assms(2)]
  by (simp add: performDeepSearch_def afterTerms_def updateSearchSession_def)

lemma run_fails_without_terms:
  assumes "withDefault (saveToDatabase options) True"
    and "createSearchSession db q \<lparr> md_options = options, md_sourcesFound = None,
            md_reportGenerated = None, md_error = None \<rparr> = (Inr (sid, row), db0)"
    and "search_terms (generateSearchTerms L q) = None"
    and "fault db0 (UpdateSession sid ''error'') = Works"
  shows "\<exists>db1. performDeepSearch analyze L W cfg q options db
                 = Some (Inl (Error ''Cannot read properties of undefined (reading 'length')''), db1)
               \<and> sr_status (search_sessions db1 ! sid) = ''error''"
  using assms created_row [OF assms(2)]
  by (simp add: performDeepSearch_def afterTerms_def failRun_def updateSearchSession_def)

text \<open>
  The stages of a sample run after the term expansion, for every query but \<open>doomed\<close>
  and every list of terms.
\<close>

lemma sample_stages:
  assumes "q \<noteq> ''doomed''"
  shows "\<exists>web calls a dba rep dbr.
     performWebSearch (sampleWorld onePage sampleSite) defaultConfig terms
         \<lparr> o_maxResults = Some (withDefault (maxSources plainOptions) (maxResults defaultConfig)),
           o_useAdvancedSearch = Some (withDefault (useAdvancedSearch plainOptions) True) \<rparr> []
       = Some (web, calls)
     \<and> analyzeContent sampleEngine sampleLLM defaultConfig q web
         (withDefault (generateEmbeddings plainOptions) True) (Some 0)
         (emptyDatabase\<lparr>search_sessions := search_sessions emptyDatabase @ [row]\<rparr>)
       = Some (Inr a, dba)
     \<and> generateReport sampleLLM q a (Some 0) dba = (Inr rep, dbr)
     \<and> fault dbr (UpdateSession 0 ''completed'') = Works
     \<and> 0 < length (search_sessions dbr)"
proof -
  let ?W = "sampleWorld onePage sampleSite"
  let ?dbc = "emptyDatabase\<lparr>search_sessions := search_sessions emptyDatabase @ [row]\<rparr>"
  have scr: "0 < maxConcurrentScrapes defaultConfig" and par: "0 < parallelProcessingLimit defaultConfig"
    by (simp_all add: defaultConfig_def)
  obtain web calls where web: "performWebSearch ?W defaultConfig terms
           \<lparr> o_maxResults = Some (withDefault (maxSources plainOptions) (maxResults defaultConfig)),
             o_useAdvancedSearch = Some (withDefault (useAdvancedSearch plainOptions) True) \<rparr> []
         = Some (web, calls)"
    using performWebSearch_returns [OF scr, of ?W] by blast
  obtain a dba where an: "analyzeContent sampleEngine sampleLLM defaultConfig q web
         (withDefault (generateEmbeddings plainOptions) True) (Some 0) ?dbc = Some (Inr a, dba)"
    and keep: "search_sessions dba = search_sessions ?dbc" "fault dba = fault ?dbc"
    using analyzeContent_returns [OF par, of sampleEngine sampleLLM q web _ "Some 0" ?dbc]
    by blast
  let ?rep = "\<lparr> r_content = ''# Report'', r_query = q, r_sourceCount = ad_totalSources a,
                r_successfulAnalyses = successfulAnalyses a \<rparr>"
  let ?dbr = "dba\<lparr>reports := reports dba @ [\<lparr> rp_session = 0, rp_content = ''# Report'' \<rparr>]\<rparr>"
  have rep: "generateReport sampleLLM q a (Some 0) dba = (Inr ?rep, ?dbr)"
    using assms
    by (simp add: generateReport_def generateFinalReport_def generateResponse_def sampleLLM_def
        sampleAnswers_def saveReport_def keep emptyDatabase_def Let_def)
  have ok: "fault ?dbr (UpdateSession 0 ''completed'') = Works \<and> 0 < length (search_sessions ?dbr)"
    by (simp add: keep emptyDatabase_def)
  from web an rep ok show ?thesis by blast
qed

text \<open>
  C3, as amended. If the expansion call throws (the request to the model fails, or
  the block between braces of its answer does not parse), \<open>generateSearchTerms\<close>
  returns the query as the only search term with the category \<open>geral\<close>. If the
  answer has no block between braces, it returns the query followed by the first
  nine distinct quoted texts of the answer, each trimmed, of 3 to 49 characters and
  other than the query, with the category \<open>geral\<close>. In both cases the run goes on
  with these terms and the session is not marked \<open>error\<close>: a run with a session
  whose web search, analysis, report and final update then succeed returns its
  result with these terms and leaves the session \<open>completed\<close>, with no error in its
  metadata.
\<close>

theorem expansion_failure_falls_back:
  "(post_generate L (ExpandTerms q) = Inl e
      \<or> (post_generate L (ExpandTerms q) = Inr r \<and> jsonMatch r = Some b \<and> parseTerms L b = None)
    \<longrightarrow> generateSearchTerms L q
          = \<lparr> original_query = Some q, search_terms = Some [q], categories = Some [''geral''] \<rparr>)
   \<and> (post_generate L (ExpandTerms q) = Inr r \<and> jsonMatch r = None
    \<longrightarrow> generateSearchTerms L q
          = \<lparr> original_query = Some q,
              search_terms = Some (q # take 9 (firstSeen
                 (filter (\<lambda>t. t \<noteq> q \<and> 2 < length t \<and> length t < 50) (map trim (quoted r))))),
              categories = Some [''geral''] \<rparr>)
   \<and> ((post_generate L (ExpandTerms q) = Inl e
        \<or> (post_generate L (ExpandTerms q) = Inr r \<and> jsonMatch r = Some b \<and> parseTerms L b = None)
        \<or> (post_generate L (ExpandTerms q) = Inr r \<and> jsonMatch r = None))
       \<and> withDefault (saveToDatabase options) True
       \<and> createSearchSession db q \<lparr> md_options = options, md_sourcesFound = None,
             md_reportGenerated = None, md_error = None \<rparr> = (Inr (sid, row), dbc)
       \<and> performWebSearch W cfg (the (search_terms (generateSearchTerms L q)))
             \<lparr> o_maxResults = Some (withDefault (maxSources options) (maxResults cfg)),
               o_useAdvancedSearch = Some (withDefault (useAdvancedSearch options) True) \<rparr> []
           = Some (web, calls)
       \<and> analyze q web (withDefault (generateEmbeddings options) True) (Some sid) dbc
           = Some (Inr a, dba)
       \<and> generateReport L q a (Some sid) dba = (Inr rep, dbr)
       \<and> fault dbr (UpdateSession sid ''completed'') = Works
       \<and> sid < length (search_sessions dbr)
      \<longrightarrow> (\<exists>dbf. performDeepSearch analyze L W cfg q options db
                     = Some (Inr \<lparr> dr_sessionId = Some sid, dr_query = q,
                                   dr_searchTerms = generateSearchTerms L q,
                                   dr_webResults = web, dr_analysis = a, dr_report = rep \<rparr>, dbf)
                 \<and> sr_status (search_sessions dbf ! sid) = ''completed''
                 \<and> md_error (sr_metadata (search_sessions dbf ! sid)) = None))"
proof (intro conjI impI)
  assume "post_generate L (ExpandTerms q) = Inl e
      \<or> (post_generate L (ExpandTerms q) = Inr r \<and> jsonMatch r = Some b \<and> parseTerms L b = None)"
  then have "generateSearchTerms L q = fallbackTerms q" by (rule expansion_throws)
  then show "generateSearchTerms L q
          = \<lparr> original_query = Some q, search_terms = Some [q], categories = Some [''geral''] \<rparr>"
    by (simp add: fallbackTerms_def)
next
  assume "post_generate L (ExpandTerms q) = Inr r \<and> jsonMatch r = None"
  then show "generateSearchTerms L q
          = \<lparr> original_query = Some q,
              search_terms = Some (q # take 9 (firstSeen
                 (filter (\<lambda>t. t \<noteq> q \<and> 2 < length t \<and> length t < 50) (map trim (quoted r))))),
              categories = Some [''geral''] \<rparr>"
    by (simp add: expansion_without_block)
next
  assume h: "(post_generate L (ExpandTerms q) = Inl e
        \<or> (post_generate L (ExpandTerms q) = Inr r \<and> jsonMatch r = Some b \<and> parseTerms L b = None)
        \<or> (post_generate L (ExpandTerms q) = Inr r \<and> jsonMatch r = None))
       \<and> withDefault (saveToDatabase options) True
       \<and> createSearchSession db q \<lparr> md_options = options, md_sourcesFound = None,
             md_reportGenerated = None, md_error = None \<rparr> = (Inr (sid, row), dbc)
       \<and> performWebSearch W cfg (the (search_terms (generateSearchTerms L q)))
             \<lparr> o_maxResults = Some (withDefault (maxSources options) (maxResults cfg)),
               o_useAdvancedSearch = Some (withDefault (useAdvancedSearch options) True) \<rparr> []
           = Some (web, calls)
       \<and> analyze q web (withDefault (generateEmbeddings options) True) (Some sid) dbc
           = Some (Inr a, dba)
       \<and> generateReport L q a (Some sid) dba = (Inr rep, dbr)
       \<and> fault dbr (UpdateSession sid ''completed'') = Works
       \<and> sid < length (search_sessions dbr)"
  then have "generateSearchTerms L q = fallbackTerms q
             \<or> (post_generate L (ExpandTerms q) = Inr r \<and> jsonMatch r = None)"
    using expansion_throws [of L q e r b] by blast
  then have terms: "\<exists>ts. search_terms (generateSearchTerms L q) = Some ts"
    using expansion_without_block [of L q r] by (auto simp: fallbackTerms_def)
  then obtain ts where ts: "search_terms (generateSearchTerms L q) = Some ts" ..
  show "\<exists>dbf. performDeepSearch analyze L W cfg q options db
                     = Some (Inr \<lparr> dr_sessionId = Some sid, dr_query = q,
                                   dr_searchTerms = generateSearchTerms L q,
                                   dr_webResults = web, dr_analysis = a, dr_report = rep \<rparr>, dbf)
                 \<and> sr_status (search_sessions dbf ! sid) = ''completed''
                 \<and> md_error (sr_metadata (search_sessions dbf ! sid)) = None"
    using run_completes [where analyze = analyze and terms = ts and d = "generateSearchTerms L q",
                         OF _ _ refl ts] h ts
    by simp
qed

theorem expansion_failure_falls_back_witness:
  "post_generate sampleLLM (ExpandTerms ''offline'') = Inl (Error ''connect ECONNREFUSED'')
   \<and> search_terms (generateSearchTerms sampleLLM ''offline'') = Some [''offline'']
   \<and> categories (generateSearchTerms sampleLLM ''offline'') = Some [''geral'']
   \<and> map_option (\<lambda>r. isl (fst r))
       (performDeepSearch (analyzeContent sampleEngine sampleLLM defaultConfig) sampleLLM
          (sampleWorld onePage sampleSite) defaultConfig ''offline'' plainOptions emptyDatabase)
     = Some False
   \<and> map_option (\<lambda>r. sr_status (search_sessions (snd r) ! 0))
       (performDeepSearch (analyzeContent sampleEngine sampleLLM defaultConfig) sampleLLM
          (sampleWorld onePage sampleSite) defaultConfig ''offline'' plainOptions emptyDatabase)
     = Some ''completed''
   \<and> post_generate sampleLLM (ExpandTerms ''chatty'')
     = Inr (''Try '' @ qq ''solar panels'' @ '' or '' @ qq ''wind turbines'')
   \<and> jsonMatch (''Try '' @ qq ''solar panels'' @ '' or '' @ qq ''wind turbines'') = None
   \<and> categories (generateSearchTerms sampleLLM ''chatty'') = Some [''geral'']
   \<and> map_option (\<lambda>r. isl (fst r))
       (performDeepSearch (analyzeContent sampleEngine sampleLLM defaultConfig) sampleLLM
          (sampleWorld onePage sampleSite) defaultConfig ''chatty'' plainOptions emptyDatabase)
     = Some False
   \<and> map_option (\<lambda>r. sr_status (search_sessions (snd r) ! 0))
       (performDeepSearch (analyzeContent sampleEngine sampleLLM defaultConfig) sampleLLM
          (sampleWorld onePage sampleSite) defaultConfig ''chatty'' plainOptions emptyDatabase)
     = Some ''completed''
   \<and> map_option (\<lambda>r. md_error (sr_metadata (search_sessions (snd r) ! 0)))
       (performDeepSearch (analyzeContent sampleEngine sampleLLM defaultConfig) sampleLLM
          (sampleWorld onePage sampleSite) defaultConfig ''chatty'' plainOptions emptyDatabase)
     = Some None"
proof -
  let ?W = "sampleWorld onePage sampleSite"
  let ?md = "\<lparr> md_options = plainOptions, md_sourcesFound = None, md_reportGenerated = None,
              md_error = None \<rparr>"
  let ?rowA = "\<lparr> sr_query = ''offline'', sr_status = ''pending'', sr_metadata = ?md \<rparr>"
  let ?rowB = "\<lparr> sr_query = ''chatty'', sr_status = ''pending'', sr_metadata = ?md \<rparr>"
  let ?dbA = "emptyDatabase\<lparr>search_sessions := search_sessions emptyDatabase @ [?rowA]\<rparr>"
  let ?dbB = "emptyDatabase\<lparr>search_sessions := search_sessions emptyDatabase @ [?rowB]\<rparr>"
  let ?chat = "''Try '' @ qq ''solar panels'' @ '' or '' @ qq ''wind turbines''"
  have save: "withDefault (saveToDatabase plainOptions) True"
    by (simp add: plainOptions_def withDefault_def)
  have fails: "post_generate sampleLLM (ExpandTerms ''offline'') = Inl (Error ''connect ECONNREFUSED'')"
    by (simp add: sampleLLM_def sampleAnswers_def)
  have chat: "post_generate sampleLLM (ExpandTerms ''chatty'') = Inr ?chat"
    by (simp add: sampleLLM_def sampleAnswers_def)
  have nob: "jsonMatch ?chat = None"
    by (simp add: jsonMatch_def qq_def)
  have createdA: "createSearchSession emptyDatabase ''offline'' ?md = (Inr (0, ?rowA), ?dbA)"
    by (simp add: createSearchSession_def emptyDatabase_def Let_def)
  have createdB: "createSearchSession emptyDatabase ''chatty'' ?md = (Inr (0, ?rowB), ?dbB)"
    by (simp add: createSearchSession_def emptyDatabase_def Let_def)
  obtain webA callsA aA dbaA repA dbrA where stA:
    "performWebSearch ?W defaultConfig (the (search_terms (generateSearchTerms sampleLLM ''offline'')))
         \<lparr> o_maxResults = Some (withDefault (maxSources plainOptions) (maxResults defaultConfig)),
           o_useAdvancedSearch = Some (withDefault (useAdvancedSearch plainOptions) True) \<rparr> []
       = Some (webA, callsA)"
    "analyzeContent sampleEngine sampleLLM defaultConfig ''offline'' webA
         (withDefault (generateEmbeddings plainOptions) True) (Some 0) ?dbA = Some (Inr aA, dbaA)"
    "generateReport sampleLLM ''offline'' aA (Some 0) dbaA = (Inr repA, dbrA)"
    "fault dbrA (UpdateSession 0 ''completed'') = Works" "0 < length (search_sessions dbrA)"
    using sample_stages [of "''offline''" "the (search_terms (generateSearchTerms sampleLLM ''offline''))" ?rowA]
    by auto
  obtain webB callsB aB dbaB repB dbrB where stB:
    "performWebSearch ?W defaultConfig (the (search_terms (generateSearchTerms sampleLLM ''chatty'')))
         \<lparr> o_maxResults = Some (withDefault (maxSources plainOptions) (maxResults defaultConfig)),
           o_useAdvancedSearch = Some (withDefault (useAdvancedSearch plainOptions) True) \<rparr> []
       = Some (webB, callsB)"
    "analyzeContent sampleEngine sampleLLM defaultConfig ''chatty'' webB
         (withDefault (generateEmbeddings plainOptions) True) (Some 0) ?dbB = Some (Inr aB, dbaB)"
    "generateReport sampleLLM ''chatty'' aB (Some 0) dbaB = (Inr repB, dbrB)"
    "fault dbrB (UpdateSession 0 ''completed'') = Works" "0 < length (search_sessions dbrB)"
    using sample_stages [of "''chatty''" "the (search_terms (generateSearchTerms sampleLLM ''chatty''))" ?rowB]
    by auto
  note tA = expansion_failure_falls_back
             [where L = sampleLLM and q = "''offline''" and e = "Error ''connect ECONNREFUSED''"
                and options = plainOptions and db = emptyDatabase and sid = 0 and row = ?rowA
                and dbc = ?dbA and W = ?W and cfg = defaultConfig and web = webA and calls = callsA
                and analyze = "analyzeContent sampleEngine sampleLLM defaultConfig" and a = aA and dba = dbaA
                and rep = repA and dbr = dbrA]
  note tB = expansion_failure_falls_back
             [where L = sampleLLM and q = "''chatty''" and r = ?chat
                and options = plainOptions and db = emptyDatabase and sid = 0 and row = ?rowB
                and dbc = ?dbB and W = ?W and cfg = defaultConfig and web = webB and calls = callsB
                and analyze = "analyzeContent sampleEngine sampleLLM defaultConfig" and a = aB and dba = dbaB
                and rep = repB and dbr = dbrB]
  note tA1 = conjunct1 [OF tA] and tA3 = conjunct2 [OF conjunct2 [OF tA]]
  note tB2 = conjunct1 [OF conjunct2 [OF tB]] and tB3 = conjunct2 [OF conjunct2 [OF tB]]
  from tA1 fails have dA: "generateSearchTerms sampleLLM ''offline''
      = \<lparr> original_query = Some ''offline'', search_terms = Some [''offline''],
          categories = Some [''geral''] \<rparr>"
    by blast
  from tB2 chat nob have "generateSearchTerms sampleLLM ''chatty''
      = \<lparr> original_query = Some ''chatty'',
          search_terms = Some (''chatty'' # take 9 (firstSeen
             (filter (\<lambda>t. t \<noteq> ''chatty'' \<and> 2 < length t \<and> length t < 50)
                (map trim (quoted ?chat))))),
          categories = Some [''geral''] \<rparr>"
    by blast
  then have dB: "categories (generateSearchTerms sampleLLM ''chatty'') = Some [''geral'']"
    by (simp only: searchTermsData.simps)
  from tA3 fails save createdA stA
  obtain dbfA resA where runA:
    "performDeepSearch (analyzeContent sampleEngine sampleLLM defaultConfig) sampleLLM ?W defaultConfig
       ''offline'' plainOptions emptyDatabase = Some (Inr resA, dbfA)"
    "sr_status (search_sessions dbfA ! 0) = ''completed''"
    by blast
  from tB3 chat nob save createdB stB
  obtain dbfB resB where runB:
    "performDeepSearch (analyzeContent sampleEngine sampleLLM defaultConfig) sampleLLM ?W defaultConfig
       ''chatty'' plainOptions emptyDatabase = Some (Inr resB, dbfB)"
    "sr_status (search_sessions dbfB ! 0) = ''completed''"
    "md_error (sr_metadata (search_sessions dbfB ! 0)) = None"
    by blast
  from runA have "map_option (\<lambda>r. isl (fst r))
       (performDeepSearch (analyzeContent sampleEngine sampleLLM defaultConfig) sampleLLM ?W defaultConfig
          ''offline'' plainOptions emptyDatabase) = Some False"
    "map_option (\<lambda>r. sr_status (search_sessions (snd r) ! 0))
       (performDeepSearch (analyzeContent sampleEngine sampleLLM defaultConfig) sampleLLM ?W defaultConfig
          ''offline'' plainOptions emptyDatabase) = Some ''completed''"
    by simp_all
  moreover from runB have "map_option (\<lambda>r. isl (fst r))
       (performDeepSearch (analyzeContent sampleEngine sampleLLM defaultConfig) sampleLLM ?W defaultConfig
          ''chatty'' plainOptions emptyDatabase) = Some False"
    "map_option (\<lambda>r. sr_status (search_sessions (snd r) ! 0))
       (performDeepSearch (analyzeContent sampleEngine sampleLLM defaultConfig) sampleLLM ?W defaultConfig
          ''chatty'' plainOptions emptyDatabase) = Some ''completed''"
    "map_option (\<lambda>r. md_error (sr_metadata (search_sessions (snd r) ! 0)))
       (performDeepSearch (analyzeContent sampleEngine sampleLLM defaultConfig) sampleLLM ?W defaultConfig
          ''chatty'' plainOptions emptyDatabase) = Some None"
    by simp_all
  moreover from dA have "search_terms (generateSearchTerms sampleLLM ''offline'') = Some [''offline'']"
    "categories (generateSearchTerms sampleLLM ''offline'') = Some [''geral'']"
    by simp_all
  ultimately show ?thesis using fails chat nob dB by (intro conjI)
qed

text \<open>
  C3 as stated fails for an answer that is not JSON at all: the sample answer to
  the query \<open>chatty\<close> is prose without braces that quotes two phrases, and the search
  terms are the query and the two phrases, not the query alone.
\<close>

theorem expansion_failure_falls_back_counterexample:
  "post_generate sampleLLM (ExpandTerms ''chatty'')
     = Inr (''Try '' @ qq ''solar panels'' @ '' or '' @ qq ''wind turbines'')
   \<and> jsonMatch (''Try '' @ qq ''solar panels'' @ '' or '' @ qq ''wind turbines'') = None
   \<and> search_terms (generateSearchTerms sampleLLM ''chatty'')
     = Some [''chatty'', ''solar panels'', ''wind turbines'']"
  by (simp add: generateSearchTerms_def generateResponse_def sampleLLM_def sampleAnswers_def
      jsonMatch_def qq_def extractSearchTermsFallback_def isQuote_def trim_def isSpace_def
      firstSeen_def)

text \<open>
  Outside C3 as amended: an answer whose block parses, but to an object without
  \<open>search_terms\<close>. \<open>generateSearchTerms\<close> returns that object as it is, and the run
  ends where \<open>performDeepSearch\<close> reads \<open>search_terms.length\<close>: the type error goes to
  its \<open>catch\<close>, which marks the session \<open>error\<close> and throws.
\<close>

lemma parsed_block_without_terms:
  assumes "withDefault (saveToDatabase options) True"
    and "createSearchSession db q \<lparr> md_options = options, md_sourcesFound = None,
            md_reportGenerated = None, md_error = None \<rparr> = (Inr (sid, row), db0)"
    and "post_generate L (ExpandTerms q) = Inr r" "jsonMatch r = Some b"
    and "parseTerms L b = Some d" "search_terms d = None"
    and "fault db0 (UpdateSession sid ''error'') = Works"
  shows "\<exists>db1. performDeepSearch analyze L W cfg q options db
                 = Some (Inl (Error ''Cannot read properties of undefined (reading 'length')''), db1)
               \<and> sr_status (search_sessions db1 ! sid) = ''error''"
proof -
  from assms(3-6) have "search_terms (generateSearchTerms L q) = None"
    by (simp add: generateSearchTerms_def generateResponse_def)
  from run_fails_without_terms [OF assms(1,2) this assms(7)] show ?thesis .
qed

lemma keyless_answer_fails_run:
  "map_option (\<lambda>r. (fst r, sr_status (search_sessions (snd r) ! 0)))
     (performDeepSearch (analyzeContent sampleEngine sampleLLM defaultConfig) sampleLLM
        (sampleWorld onePage sampleSite) defaultConfig ''keyless'' plainOptions emptyDatabase)
   = Some (Inl (Error ''Cannot read properties of undefined (reading 'length')''), ''error'')"
  by (simp add: performDeepSearch_def afterTerms_def failRun_def updateSearchSession_def
      createSearchSession_def emptyDatabase_def plainOptions_def withDefault_def Let_def
      generateSearchTerms_def generateResponse_def sampleLLM_def sampleAnswers_def jsonMatch_def
      sampleParseTerms_def termsJson_def qq_def)

end
